theory Spec2Isabelle
  imports Main
begin

section \<open>Data model (db.types.go)\<close>

text \<open>
  The Go structs become records. A nullable pointer (\<^verbatim>\<open>*int\<close>, \<^verbatim>\<open>*string\<close>) is an
  \<open>option\<close>; Go's \<^verbatim>\<open>int\<close> is \<open>int\<close> (no arithmetic of the code can reach the 64-bit
  bounds); a Go \<^verbatim>\<open>string\<close> is a \<open>string\<close>, compared byte by byte.
  Field names carry a short prefix of their struct, since several structs share
  field names.
\<close>

record Country =
  co_ID :: "int option"
  co_Country :: string
  co_CountryShort :: string
  co_Used :: bool
  co_External :: bool

record State =
  st_ID :: "int option"
  st_State :: string
  st_StateShort :: string
  st_CountryShort :: string
  st_Used :: bool
  st_External :: bool

record City =
  ci_ID :: "int option"
  ci_City :: string
  ci_StateShort :: string
  ci_CountryShort :: string
  ci_County :: "string option"
  ci_Used :: bool
  ci_External :: bool

record Zip =
  zp_ID :: "int option"
  zp_Zip :: string
  zp_CountryShort :: string
  zp_Used :: bool
  zp_External :: bool

record Query =
  qu_ID :: "int option"
  qu_Query :: string
  qu_Used :: bool
  qu_External :: bool

text \<open>
  The \<^verbatim>\<open>page\<close> column of a session holds the empty string, the literal
  \<^verbatim>\<open>"completed"\<close>, or the JSON text of a \<^verbatim>\<open>PageNav\<close>. The JSON text is kept as the
  value it encodes (the page numbers and the total).
\<close>

datatype page_text = PageTextEmpty | PageTextCompleted | PageTextJSON "int list" int

record NavSession =
  ns_ID :: int
  ns_Format :: string
  ns_CountryShort :: string
  ns_QueryID :: "int option"
  ns_ZipID :: "int option"
  ns_CityID :: "int option"
  ns_StateShort :: "string option"
  ns_Page :: page_text
  ns_Completed :: bool
  ns_External :: bool

record Nav =
  nav_Query :: "string option"
  nav_Zip :: "string option"
  nav_City :: "string option"
  nav_State :: "string option"
  nav_StateShort :: "string option"
  nav_Country :: "string option"
  nav_CountryShort :: "string option"
  nav_County :: "string option"

text \<open>
  \<^verbatim>\<open>NavResponse.Page\<close> is an \<^verbatim>\<open>interface{}\<close> holding nil, a \<^verbatim>\<open>PageNav\<close> or the string
  \<^verbatim>\<open>"completed"\<close>. A \<^verbatim>\<open>PageNav\<close> holds a slice: its elements, and the number of free
  cells of its backing array behind them (capacity minus length), which decides
  whether \<^verbatim>\<open>append\<close> writes into the shared array or allocates a new one.
\<close>

datatype page = PageNil | PageNavV "int list" nat int | PageCompleted

record NavResponse =
  nr_Format :: string
  nr_Nav :: Nav
  nr_Country :: string
  nr_Placeholder :: string
  nr_Page :: page
  nr_HasNext :: bool

datatype error =
  ValidationError string
  | StoreError string
  | NilDereference

section \<open>The store (db.go)\<close>

text \<open>
  The SQLite database is a record of its six tables, each the list of its rows in
  rowid order, with the AUTOINCREMENT counters of the four tables that have one.
  A statement is modelled by what SQLite does for it under the schema of
  \<^verbatim>\<open>initTables\<close> with foreign keys on: \<^verbatim>\<open>INSERT OR IGNORE\<close> skips a row that
  conflicts with a PRIMARY KEY or UNIQUE constraint and fails on a missing foreign
  key parent; a \<^verbatim>\<open>SELECT\<close> without \<^verbatim>\<open>ORDER BY\<close> yields the rows in table order.
  Failures of the storage medium itself are outside the model.
\<close>

record DB =
  countries_tbl :: "Country list"
  states_tbl :: "State list"
  cities_tbl :: "City list"
  zips_tbl :: "Zip list"
  queries_tbl :: "Query list"
  nav_sessions_tbl :: "NavSession list"
  cities_seq :: int
  zips_seq :: int
  queries_seq :: int
  nav_sessions_seq :: int

definition empty_db :: DB where
  "empty_db = \<lparr>countries_tbl = [], states_tbl = [], cities_tbl = [], zips_tbl = [],
     queries_tbl = [], nav_sessions_tbl = [], cities_seq = 0, zips_seq = 0,
     queries_seq = 0, nav_sessions_seq = 0\<rparr>"

definition fk_failed :: error where
  "fk_failed = StoreError ''FOREIGN KEY constraint failed''"

definition has_country :: "DB \<Rightarrow> string \<Rightarrow> bool" where
  "has_country d cs = (\<exists>r \<in> set (countries_tbl d). co_CountryShort r = cs)"

definition has_state :: "DB \<Rightarrow> string \<Rightarrow> string \<Rightarrow> bool" where
  "has_state d ss cs =
     (\<exists>r \<in> set (states_tbl d). st_StateShort r = ss \<and> st_CountryShort r = cs)"

definition has_city :: "DB \<Rightarrow> string \<Rightarrow> string \<Rightarrow> string \<Rightarrow> bool" where
  "has_city d c ss cs =
     (\<exists>r \<in> set (cities_tbl d). ci_City r = c \<and> ci_StateShort r = ss \<and> ci_CountryShort r = cs)"

definition has_zip :: "DB \<Rightarrow> string \<Rightarrow> string \<Rightarrow> bool" where
  "has_zip d z cs = (\<exists>r \<in> set (zips_tbl d). zp_Zip r = z \<and> zp_CountryShort r = cs)"

definition has_query :: "DB \<Rightarrow> string \<Rightarrow> bool" where
  "has_query d q = (\<exists>r \<in> set (queries_tbl d). qu_Query r = q)"

text \<open>One \<^verbatim>\<open>stmt.Exec\<close> of each prepared \<^verbatim>\<open>INSERT OR IGNORE\<close>.\<close>

definition insert_country :: "bool \<Rightarrow> Country \<Rightarrow> DB \<Rightarrow> error + DB" where
  "insert_country ext c d =
     (if has_country d (co_CountryShort c) then Inr d
      else Inr (d\<lparr>countries_tbl := countries_tbl d @
              [\<lparr>co_ID = None, co_Country = co_Country c,
                co_CountryShort = co_CountryShort c, co_Used = co_Used c,
                co_External = ext\<rparr>]\<rparr>))"

definition insert_state :: "bool \<Rightarrow> State \<Rightarrow> DB \<Rightarrow> error + DB" where
  "insert_state ext s d =
     (if has_state d (st_StateShort s) (st_CountryShort s) then Inr d
      else if \<not> has_country d (st_CountryShort s) then Inl fk_failed
      else Inr (d\<lparr>states_tbl := states_tbl d @
              [\<lparr>st_ID = None, st_State = st_State s, st_StateShort = st_StateShort s,
                st_CountryShort = st_CountryShort s, st_Used = st_Used s,
                st_External = ext\<rparr>]\<rparr>))"

definition insert_city :: "bool \<Rightarrow> City \<Rightarrow> DB \<Rightarrow> error + DB" where
  "insert_city ext c d =
     (if has_city d (ci_City c) (ci_StateShort c) (ci_CountryShort c) then Inr d
      else if \<not> has_state d (ci_StateShort c) (ci_CountryShort c)
              \<or> \<not> has_country d (ci_CountryShort c) then Inl fk_failed
      else Inr (d\<lparr>cities_tbl := cities_tbl d @
              [\<lparr>ci_ID = Some (cities_seq d + 1), ci_City = ci_City c,
                ci_StateShort = ci_StateShort c, ci_CountryShort = ci_CountryShort c,
                ci_County = ci_County c, ci_Used = ci_Used c, ci_External = ext\<rparr>],
              cities_seq := cities_seq d + 1\<rparr>))"

definition insert_zip :: "bool \<Rightarrow> Zip \<Rightarrow> DB \<Rightarrow> error + DB" where
  "insert_zip ext z d =
     (if has_zip d (zp_Zip z) (zp_CountryShort z) then Inr d
      else if \<not> has_country d (zp_CountryShort z) then Inl fk_failed
      else Inr (d\<lparr>zips_tbl := zips_tbl d @
              [\<lparr>zp_ID = Some (zips_seq d + 1), zp_Zip = zp_Zip z,
                zp_CountryShort = zp_CountryShort z, zp_Used = zp_Used z,
                zp_External = ext\<rparr>],
              zips_seq := zips_seq d + 1\<rparr>))"

definition insert_query :: "bool \<Rightarrow> string \<Rightarrow> DB \<Rightarrow> error + DB" where
  "insert_query ext q d =
     (if has_query d q then Inr d
      else Inr (d\<lparr>queries_tbl := queries_tbl d @
              [\<lparr>qu_ID = Some (queries_seq d + 1), qu_Query = q, qu_Used = False,
                qu_External = ext\<rparr>],
              queries_seq := queries_seq d + 1\<rparr>))"

text \<open>
  The loop \<^verbatim>\<open>for ... { _, err := stmt.Exec(...); if err != nil { return err } }\<close>
  inside a transaction: the first failing statement ends the loop.
\<close>

fun exec_all :: "('r \<Rightarrow> DB \<Rightarrow> error + DB) \<Rightarrow> 'r list \<Rightarrow> DB \<Rightarrow> error + DB" where
  "exec_all f [] d = Inr d"
| "exec_all f (r # rs) d =
     (case f r d of Inl e \<Rightarrow> Inl e | Inr d' \<Rightarrow> exec_all f rs d')"

text \<open>
  \<^verbatim>\<open>tx.Commit()\<close> on success; on an error the deferred \<^verbatim>\<open>tx.Rollback()\<close> restores
  the database the transaction began with.
\<close>

definition in_tx :: "DB \<Rightarrow> error + DB \<Rightarrow> error option \<times> DB" where
  "in_tx d r = (case r of Inl e \<Rightarrow> (Some e, d) | Inr d' \<Rightarrow> (None, d'))"

definition country_valid :: "Country \<Rightarrow> bool" where
  "country_valid c = (\<not> (co_CountryShort c = [] \<or> co_Country c = []))"

definition state_valid :: "State \<Rightarrow> bool" where
  "state_valid s = (\<not> (st_StateShort s = [] \<or> st_State s = [] \<or> st_CountryShort s = []))"

definition city_valid :: "City \<Rightarrow> bool" where
  "city_valid c = (\<not> (ci_City c = [] \<or> ci_StateShort c = [] \<or> ci_CountryShort c = []))"

definition zip_valid :: "Zip \<Rightarrow> bool" where
  "zip_valid z = (\<not> (zp_Zip z = [] \<or> zp_CountryShort z = []))"

definition query_valid :: "string \<Rightarrow> bool" where
  "query_valid q = (\<not> q = [])"

definition DB_AddCountries :: "DB \<Rightarrow> Country list \<Rightarrow> bool \<Rightarrow> error option \<times> DB" where
  "DB_AddCountries d cs ext =
     (if \<not> list_all country_valid cs
      then (Some (ValidationError ''all countries must have countryShort and country''), d)
      else in_tx d (exec_all (insert_country ext) cs d))"

definition DB_AddStates :: "DB \<Rightarrow> State list \<Rightarrow> bool \<Rightarrow> error option \<times> DB" where
  "DB_AddStates d ss ext =
     (if \<not> list_all state_valid ss
      then (Some (ValidationError
              ''all states must have stateShort, state, and countryShort''), d)
      else in_tx d (exec_all (insert_state ext) ss d))"

definition DB_AddCities :: "DB \<Rightarrow> City list \<Rightarrow> bool \<Rightarrow> error option \<times> DB" where
  "DB_AddCities d cs ext =
     (if \<not> list_all city_valid cs
      then (Some (ValidationError
              ''all cities must have city, stateShort, and countryShort''), d)
      else in_tx d (exec_all (insert_city ext) cs d))"

definition DB_AddZips :: "DB \<Rightarrow> Zip list \<Rightarrow> bool \<Rightarrow> error option \<times> DB" where
  "DB_AddZips d zs ext =
     (if \<not> list_all zip_valid zs
      then (Some (ValidationError ''all zips must have zip and countryShort''), d)
      else in_tx d (exec_all (insert_zip ext) zs d))"

definition DB_AddQueries :: "DB \<Rightarrow> string list \<Rightarrow> bool \<Rightarrow> error option \<times> DB" where
  "DB_AddQueries d qs ext =
     (if \<not> list_all query_valid qs
      then (Some (ValidationError ''all queries must be non-empty strings''), d)
      else in_tx d (exec_all (insert_query ext) qs d))"

text \<open>
  \<^verbatim>\<open>DELETE FROM queries WHERE external = 1\<close>. The foreign key
  \<^verbatim>\<open>queryId ... ON DELETE SET NULL\<close> of \<^verbatim>\<open>nav_sessions\<close> clears the references to
  the deleted rows.
\<close>

definition ClearQueries :: "DB \<Rightarrow> DB" where
  "ClearQueries d =
     (let gone = map qu_ID (filter qu_External (queries_tbl d)) in
      d\<lparr>queries_tbl := filter (\<lambda>q. \<not> qu_External q) (queries_tbl d),
        nav_sessions_tbl :=
          map (\<lambda>s. if ns_QueryID s \<noteq> None \<and> ns_QueryID s \<in> set gone
                    then s\<lparr>ns_QueryID := None\<rparr> else s) (nav_sessions_tbl d)\<rparr>)"

definition GetQueries :: "DB \<Rightarrow> Query list" where
  "GetQueries d = queries_tbl d"

definition GetCountries :: "DB \<Rightarrow> string \<Rightarrow> Country list" where
  "GetCountries d targetCountry =
     (if targetCountry = ''all'' then countries_tbl d
      else filter (\<lambda>c. co_CountryShort c = targetCountry) (countries_tbl d))"

definition GetStates :: "DB \<Rightarrow> string list \<Rightarrow> State list" where
  "GetStates d countryShorts =
     (if countryShorts = [] then []
      else filter (\<lambda>s. st_CountryShort s \<in> set countryShorts) (states_tbl d))"

text \<open>
  With state codes but no country codes the generated statement ends in an empty
  \<^verbatim>\<open>WHERE\<close> clause, which SQLite rejects.
\<close>

definition GetCities :: "DB \<Rightarrow> string list \<Rightarrow> string list \<Rightarrow> error + City list" where
  "GetCities d countryShorts stateShorts =
     (if countryShorts = [] \<and> stateShorts = [] then Inr []
      else if stateShorts \<noteq> [] then
        (if countryShorts = [] then Inl (StoreError ''incomplete input'')
         else Inr (filter (\<lambda>c. ci_StateShort c \<in> set stateShorts \<and>
                                ci_CountryShort c \<in> set countryShorts) (cities_tbl d)))
      else Inr (filter (\<lambda>c. ci_CountryShort c \<in> set countryShorts) (cities_tbl d)))"

definition GetZips :: "DB \<Rightarrow> string list \<Rightarrow> Zip list" where
  "GetZips d countryShorts =
     (if countryShorts = [] then []
      else filter (\<lambda>z. zp_CountryShort z \<in> set countryShorts) (zips_tbl d))"

text \<open>
  \<^verbatim>\<open>SaveNavSession\<close>: one \<^verbatim>\<open>INSERT\<close> into \<^verbatim>\<open>nav_sessions\<close>. The row gets the
  next AUTOINCREMENT id; every non-NULL reference must have its parent row (a
  composite key with a NULL column is not checked).
\<close>

definition SaveNavSession :: "DB \<Rightarrow> NavSession \<Rightarrow> error option \<times> DB" where
  "SaveNavSession d s =
     (if \<not> has_country d (ns_CountryShort s)
         \<or> (ns_QueryID s \<noteq> None \<and> ns_QueryID s \<notin> set (map qu_ID (queries_tbl d)))
         \<or> (ns_ZipID s \<noteq> None \<and> ns_ZipID s \<notin> set (map zp_ID (zips_tbl d)))
         \<or> (ns_CityID s \<noteq> None \<and> ns_CityID s \<notin> set (map ci_ID (cities_tbl d)))
         \<or> (ns_StateShort s \<noteq> None \<and>
             \<not> has_state d (the (ns_StateShort s)) (ns_CountryShort s))
      then (Some fk_failed, d)
      else (None, d\<lparr>nav_sessions_tbl := nav_sessions_tbl d @
                       [s\<lparr>ns_ID := nav_sessions_seq d + 1\<rparr>],
                     nav_sessions_seq := nav_sessions_seq d + 1\<rparr>))"

text \<open>
  \<^verbatim>\<open>UpdateNavSession\<close> receives a map from column name to value; the code only ever
  passes the columns \<^verbatim>\<open>page\<close> and \<^verbatim>\<open>completed\<close>, one per call.
\<close>

datatype session_update = SetPage page_text | SetCompleted bool

fun apply_update :: "session_update \<Rightarrow> NavSession \<Rightarrow> NavSession" where
  "apply_update (SetPage p) s = s\<lparr>ns_Page := p\<rparr>"
| "apply_update (SetCompleted b) s = s\<lparr>ns_Completed := b\<rparr>"

definition UpdateNavSession :: "DB \<Rightarrow> int \<Rightarrow> session_update list \<Rightarrow> DB" where
  "UpdateNavSession d i updates =
     (if updates = [] then d
      else d\<lparr>nav_sessions_tbl :=
             map (\<lambda>s. if ns_ID s = i then fold apply_update updates s else s)
               (nav_sessions_tbl d)\<rparr>)"

text \<open>\<^verbatim>\<open>SELECT ... FROM nav_sessions WHERE completed = 0 LIMIT 1\<close>.\<close>

definition GetCurrentNavSession :: "DB \<Rightarrow> NavSession option" where
  "GetCurrentNavSession d = find (\<lambda>s. \<not> ns_Completed s) (nav_sessions_tbl d)"

definition GetAllNavSessions :: "DB \<Rightarrow> NavSession list" where
  "GetAllNavSessions d = nav_sessions_tbl d"

definition ResetNavSessions :: "DB \<Rightarrow> DB" where
  "ResetNavSessions d = d\<lparr>nav_sessions_tbl := []\<rparr>"

definition DB_ResetDatabase :: "DB \<Rightarrow> DB" where
  "DB_ResetDatabase d =
     d\<lparr>countries_tbl := map (\<lambda>r. r\<lparr>co_Used := False\<rparr>) (countries_tbl d),
       states_tbl := map (\<lambda>r. r\<lparr>st_Used := False\<rparr>) (states_tbl d),
       cities_tbl := map (\<lambda>r. r\<lparr>ci_Used := False\<rparr>) (cities_tbl d),
       zips_tbl := map (\<lambda>r. r\<lparr>zp_Used := False\<rparr>) (zips_tbl d),
       queries_tbl := map (\<lambda>r. r\<lparr>qu_Used := False\<rparr>) (queries_tbl d),
       nav_sessions_tbl := []\<rparr>"

definition CountTotal :: "DB \<Rightarrow> int" where
  "CountTotal d = int (length (countries_tbl d))"

section \<open>The state manager (stateManager.go)\<close>

text \<open>
  The cursor \<^verbatim>\<open>currentIndex\<close> starts at 0 and is only incremented or set to a
  list index, so it is a natural number.
\<close>

record StateManager =
  sm_db :: DB
  sm_format :: "string option"
  sm_targetCountry :: string
  sm_currentNav :: "NavResponse option"
  sm_countries :: "Country list"
  sm_states :: "State list"
  sm_cities :: "City list"
  sm_zips :: "Zip list"
  sm_queries :: "Query list"
  sm_currentIndex :: nat
  sm_navOrder :: "Nav list"

text \<open>
  Two facts of the Go toolchain decide what the code does and are not fixed by the
  repository, so every operation that depends on them takes them as a parameter:
  \<^item> \<open>loopvar_shared\<close>: before Go 1.22 a \<^verbatim>\<open>range\<close> loop has one variable for all its
    iterations, so the pointers \<^verbatim>\<open>&zip.Zip\<close>, \<^verbatim>\<open>&city.City\<close>, \<^verbatim>\<open>&state.State\<close> and
    \<^verbatim>\<open>&query.Query\<close> stored by every iteration of one loop are the same pointer,
    and read the element of the last iteration once the loop is over; from
    Go 1.22 on each iteration has its own variable;
  \<^item> \<open>unmarshal_spare\<close>: the capacity beyond the length of the slice that
    \<^verbatim>\<open>json.Unmarshal\<close> allocates for the page numbers.
\<close>

record go_env =
  loopvar_shared :: bool
  unmarshal_spare :: nat

text \<open>
  For each iteration of a \<^verbatim>\<open>range\<close> loop, the element that a pointer to the loop
  variable taken in that iteration reads after the loop.
\<close>

definition range_ptr :: "go_env \<Rightarrow> 'a list \<Rightarrow> 'a list" where
  "range_ptr env xs = (if loopvar_shared env then map (\<lambda>_. last xs) xs else xs)"

definition NewStateManager :: "DB \<Rightarrow> StateManager" where
  "NewStateManager d =
     \<lparr>sm_db = d, sm_format = None, sm_targetCountry = ''all'', sm_currentNav = None,
      sm_countries = [], sm_states = [], sm_cities = [], sm_zips = [], sm_queries = [],
      sm_currentIndex = 0, sm_navOrder = []\<rparr>"

definition getStatesByCountry :: "StateManager \<Rightarrow> string \<Rightarrow> State list" where
  "getStatesByCountry sm countryShort =
     filter (\<lambda>s. st_CountryShort s = countryShort) (sm_states sm)"

definition getCitiesByCountry :: "StateManager \<Rightarrow> string \<Rightarrow> City list" where
  "getCitiesByCountry sm countryShort =
     filter (\<lambda>c. ci_CountryShort c = countryShort) (sm_cities sm)"

definition getZipsByCountry :: "StateManager \<Rightarrow> string \<Rightarrow> Zip list" where
  "getZipsByCountry sm countryShort =
     filter (\<lambda>z. zp_CountryShort z = countryShort) (sm_zips sm)"

definition findStateByShort :: "string \<Rightarrow> State list \<Rightarrow> State option" where
  "findStateByShort stateShort states = find (\<lambda>s. st_StateShort s = stateShort) states"

definition empty_Nav :: Nav where
  "empty_Nav = \<lparr>nav_Query = None, nav_Zip = None, nav_City = None, nav_State = None,
     nav_StateShort = None, nav_Country = None, nav_CountryShort = None,
     nav_County = None\<rparr>"

text \<open>
  The loops of \<^verbatim>\<open>addNavForQuery\<close>. Each takes the pointer fields of a step from the
  loop variable (\<open>range_ptr\<close>) and everything read during the iteration from the
  element itself. \<open>q\<close> is the query text the step points to, if any, and \<open>cs\<close> the
  optional \<^verbatim>\<open>CountryShort\<close> field.
\<close>

definition zip_navs ::
  "go_env \<Rightarrow> string option \<Rightarrow> string option \<Rightarrow> Country \<Rightarrow> Zip list \<Rightarrow> Nav list" where
  "zip_navs env q cs country zips =
     map (\<lambda>z. empty_Nav\<lparr>nav_Query := q, nav_Zip := Some (zp_Zip z),
                 nav_Country := Some (co_CountryShort country), nav_CountryShort := cs\<rparr>)
       (range_ptr env zips)"

definition city_navs ::
  "go_env \<Rightarrow> string option \<Rightarrow> Country \<Rightarrow> City list \<Rightarrow> Nav list" where
  "city_navs env q country cities =
     map (\<lambda>c. empty_Nav\<lparr>nav_Query := q, nav_City := Some (ci_City c),
                 nav_Country := Some (co_CountryShort country)\<rparr>)
       (range_ptr env cities)"

definition city_state_navs ::
  "go_env \<Rightarrow> string option \<Rightarrow> string option \<Rightarrow> Country \<Rightarrow> State list \<Rightarrow> City list
     \<Rightarrow> Nav list" where
  "city_state_navs env q cs country states cities =
     concat (map (\<lambda>(city, seen).
         case findStateByShort (ci_StateShort city) states of
           None \<Rightarrow> []
         | Some state \<Rightarrow>
             [empty_Nav\<lparr>nav_Query := q, nav_City := Some (ci_City seen),
                nav_State := Some (st_State state),
                nav_StateShort := Some (st_StateShort state),
                nav_Country := Some (co_CountryShort country), nav_CountryShort := cs\<rparr>])
       (zip cities (range_ptr env cities)))"

definition state_navs ::
  "go_env \<Rightarrow> string option \<Rightarrow> string option \<Rightarrow> Country \<Rightarrow> State list \<Rightarrow> Nav list" where
  "state_navs env q cs country states =
     map (\<lambda>s. empty_Nav\<lparr>nav_Query := q, nav_State := Some (st_State s),
                 nav_StateShort := Some (st_StateShort s),
                 nav_Country := Some (co_CountryShort country), nav_CountryShort := cs\<rparr>)
       (range_ptr env states)"

definition county_navs :: "string option \<Rightarrow> Country \<Rightarrow> City list \<Rightarrow> Nav list" where
  "county_navs q country cities =
     concat (map (\<lambda>city.
         if ci_County city \<noteq> None
         then [empty_Nav\<lparr>nav_Query := q, nav_County := ci_County city,
                 nav_Country := Some (co_CountryShort country)\<rparr>]
         else []) cities)"

text \<open>
  \<^verbatim>\<open>addNavForQuery\<close>: the steps appended to \<^verbatim>\<open>sm.navOrder\<close> for one country and
  one query (or none). \<open>query\<close> is what the pointer \<^verbatim>\<open>query\<close> reads once the
  expansion is over.
\<close>

definition addNavForQuery ::
  "go_env \<Rightarrow> string \<Rightarrow> Query option \<Rightarrow> Country \<Rightarrow> State list \<Rightarrow> City list \<Rightarrow> Zip list
     \<Rightarrow> Nav list \<Rightarrow> Nav list" where
  "addNavForQuery env format query country states cities zips navOrder =
     (let q = map_option qu_Query query;
          cs = Some (co_CountryShort country) in
      if format = ''zip'' then navOrder @ zip_navs env None None country zips
      else if format = ''zip-country'' then navOrder @ zip_navs env None cs country zips
      else if format = ''query-zip'' then
        (if query \<noteq> None then navOrder @ zip_navs env q None country zips else navOrder)
      else if format = ''query-zip-country'' then
        (if query \<noteq> None then navOrder @ zip_navs env q cs country zips else navOrder)
      else if format = ''city'' then navOrder @ city_navs env None country cities
      else if format = ''city-state'' then
        navOrder @ city_state_navs env None None country states cities
      else if format = ''city-state-country'' then
        navOrder @ city_state_navs env None cs country states cities
      else if format = ''query-city'' then
        (if query \<noteq> None then navOrder @ city_navs env q country cities else navOrder)
      else if format = ''query-city-state'' then
        (if query \<noteq> None
         then navOrder @ city_state_navs env q None country states cities else navOrder)
      else if format = ''query-city-state-country'' then
        (if query \<noteq> None
         then navOrder @ city_state_navs env q cs country states cities else navOrder)
      else if format = ''state'' then navOrder @ state_navs env None None country states
      else if format = ''state-country'' then
        navOrder @ state_navs env None cs country states
      else if format = ''query-state'' then
        (if query \<noteq> None then navOrder @ state_navs env q None country states
         else navOrder)
      else if format = ''query-state-country'' then
        (if query \<noteq> None then navOrder @ state_navs env q cs country states
         else navOrder)
      else if format = ''query-county'' then
        (if query \<noteq> None then navOrder @ county_navs q country cities else navOrder)
      else if format = ''query'' then
        (if query \<noteq> None
         then navOrder @ [empty_Nav\<lparr>nav_Query := q,
                            nav_Country := Some (co_CountryShort country)\<rparr>]
         else navOrder)
      else if format = ''county'' then navOrder @ county_navs None country cities
      else navOrder)"

text \<open>The body of the loop over the countries in \<^verbatim>\<open>generateNavOrder\<close>.\<close>

definition country_step ::
  "go_env \<Rightarrow> string \<Rightarrow> StateManager \<Rightarrow> Country \<Rightarrow> Nav list \<Rightarrow> Nav list" where
  "country_step env format sm country navOrder =
     (let countryStates = getStatesByCountry sm (co_CountryShort country);
          countryCities = getCitiesByCountry sm (co_CountryShort country);
          countryZips = getZipsByCountry sm (co_CountryShort country) in
      if take 6 format = ''query-''
      then fold (\<lambda>query acc. addNavForQuery env format (Some query) country
                   countryStates countryCities countryZips acc)
             (range_ptr env (sm_queries sm)) navOrder
      else addNavForQuery env format None country countryStates countryCities
             countryZips navOrder)"

text \<open>
  \<^verbatim>\<open>generateNavOrder\<close> dereferences \<^verbatim>\<open>sm.format\<close> in the first iteration of the loop:
  without a format and with a country it panics, the sequence already emptied.
\<close>

definition generateNavOrder :: "go_env \<Rightarrow> StateManager \<Rightarrow> error option \<times> StateManager" where
  "generateNavOrder env sm =
     (case sm_format sm of
        None \<Rightarrow> (if sm_countries sm = [] then None else Some NilDereference,
                  sm\<lparr>sm_navOrder := []\<rparr>)
      | Some format \<Rightarrow>
          (None, sm\<lparr>sm_navOrder := fold (country_step env format sm) (sm_countries sm) []\<rparr>))"

subsection \<open>Finding entities\<close>

definition findCountry :: "StateManager \<Rightarrow> string \<Rightarrow> Country option" where
  "findCountry sm countryShort = find (\<lambda>c. co_CountryShort c = countryShort) (sm_countries sm)"

definition findQuery :: "StateManager \<Rightarrow> int \<Rightarrow> Query option" where
  "findQuery sm i = find (\<lambda>q. qu_ID q \<noteq> None \<and> qu_ID q = Some i) (sm_queries sm)"

definition findZip :: "StateManager \<Rightarrow> int \<Rightarrow> Zip option" where
  "findZip sm i = find (\<lambda>z. zp_ID z \<noteq> None \<and> zp_ID z = Some i) (sm_zips sm)"

definition findCity :: "StateManager \<Rightarrow> int \<Rightarrow> City option" where
  "findCity sm i = find (\<lambda>c. ci_ID c \<noteq> None \<and> ci_ID c = Some i) (sm_cities sm)"

definition findState :: "StateManager \<Rightarrow> string \<Rightarrow> State option" where
  "findState sm stateShort = find (\<lambda>s. st_StateShort s = stateShort) (sm_states sm)"

definition findQueryByText :: "StateManager \<Rightarrow> string \<Rightarrow> Query option" where
  "findQueryByText sm queryText = find (\<lambda>q. qu_Query q = queryText) (sm_queries sm)"

definition findZipByText :: "StateManager \<Rightarrow> string \<Rightarrow> Zip option" where
  "findZipByText sm zipText = find (\<lambda>z. zp_Zip z = zipText) (sm_zips sm)"

definition findCityByText :: "StateManager \<Rightarrow> string \<Rightarrow> City option" where
  "findCityByText sm cityText = find (\<lambda>c. ci_City c = cityText) (sm_cities sm)"

subsection \<open>Locating a session in the sequence\<close>

definition navMatches ::
  "Nav \<Rightarrow> Country option \<Rightarrow> Query option \<Rightarrow> Zip option \<Rightarrow> City option \<Rightarrow> State option
     \<Rightarrow> bool" where
  "navMatches nav country query zipE city state =
     (let queryMatch = ((nav_Query nav = None \<and> query = None) \<or>
            (nav_Query nav \<noteq> None \<and> query \<noteq> None \<and>
             the (nav_Query nav) = qu_Query (the query)));
          zipMatch = ((nav_Zip nav = None \<and> zipE = None) \<or>
            (nav_Zip nav \<noteq> None \<and> zipE \<noteq> None \<and> the (nav_Zip nav) = zp_Zip (the zipE)));
          cityMatch = ((nav_City nav = None \<and> city = None) \<or>
            (nav_City nav \<noteq> None \<and> city \<noteq> None \<and> the (nav_City nav) = ci_City (the city)));
          stateMatch = ((nav_State nav = None \<and> state = None) \<or>
            (nav_State nav \<noteq> None \<and> state \<noteq> None \<and>
             the (nav_State nav) = st_State (the state)));
          countryMatch = ((nav_Country nav = None \<and> country = None) \<or>
            (nav_Country nav \<noteq> None \<and> country \<noteq> None \<and>
             the (nav_Country nav) = co_CountryShort (the country)))
      in queryMatch \<and> zipMatch \<and> cityMatch \<and> stateMatch \<and> countryMatch)"

text \<open>The loop \<^verbatim>\<open>for i, nav := range ... { if ... { return i } }\<close>, counting from \<open>i\<close>.\<close>

fun first_index :: "('a \<Rightarrow> bool) \<Rightarrow> 'a list \<Rightarrow> nat \<Rightarrow> nat option" where
  "first_index P [] i = None"
| "first_index P (x # xs) i = (if P x then Some i else first_index P xs (Suc i))"

definition findNavIndex ::
  "StateManager \<Rightarrow> NavSession \<Rightarrow> Country option \<Rightarrow> Query option \<Rightarrow> Zip option
     \<Rightarrow> City option \<Rightarrow> State option \<Rightarrow> nat" where
  "findNavIndex sm session country query zipE city state =
     (case first_index (\<lambda>nav. navMatches nav country query zipE city state)
             (sm_navOrder sm) 0 of
        Some i \<Rightarrow> i
      | None \<Rightarrow> 0)"

subsection \<open>Building the navigation response\<close>

fun join_strings :: "string \<Rightarrow> string list \<Rightarrow> string" where
  "join_strings sep [] = []"
| "join_strings sep [p] = p"
| "join_strings sep (p # ps) = p @ sep @ join_strings sep ps"

definition generatePlaceholder :: "Nav \<Rightarrow> string" where
  "generatePlaceholder nav =
     (let parts = (if nav_Query nav \<noteq> None then [the (nav_Query nav)] else []);
          parts = (if nav_City nav \<noteq> None then parts @ [the (nav_City nav)]
                   else if nav_Zip nav \<noteq> None then parts @ [the (nav_Zip nav)]
                   else if nav_State nav \<noteq> None then parts @ [the (nav_State nav)]
                   else if nav_County nav \<noteq> None then parts @ [the (nav_County nav)]
                   else parts)
      in if length parts = 0 then ''Unknown'' else join_strings ''##'' parts)"

definition buildNavResponse ::
  "go_env \<Rightarrow> StateManager \<Rightarrow> NavSession \<Rightarrow> Country option \<Rightarrow> Query option \<Rightarrow> Zip option
     \<Rightarrow> City option \<Rightarrow> State option \<Rightarrow> NavResponse" where
  "buildNavResponse env sm session country query zipE city state =
     (let page = (case ns_Page session of
                    PageTextCompleted \<Rightarrow> PageCompleted
                  | PageTextEmpty \<Rightarrow> PageNil
                  | PageTextJSON pages tot \<Rightarrow> PageNavV pages (unmarshal_spare env) tot);
          nav = empty_Nav;
          nav = (case query of None \<Rightarrow> nav | Some q \<Rightarrow> nav\<lparr>nav_Query := Some (qu_Query q)\<rparr>);
          nav = (case zipE of None \<Rightarrow> nav | Some z \<Rightarrow> nav\<lparr>nav_Zip := Some (zp_Zip z)\<rparr>);
          nav = (case city of None \<Rightarrow> nav
                 | Some c \<Rightarrow> nav\<lparr>nav_City := Some (ci_City c), nav_County := ci_County c\<rparr>);
          nav = (case state of None \<Rightarrow> nav
                 | Some s \<Rightarrow> nav\<lparr>nav_State := Some (st_State s),
                                  nav_StateShort := Some (st_StateShort s)\<rparr>);
          nav = (case country of None \<Rightarrow> nav
                 | Some c \<Rightarrow> nav\<lparr>nav_Country := Some (co_Country c),
                                  nav_CountryShort := Some (co_CountryShort c)\<rparr>);
          countryShort = (case country of None \<Rightarrow> [] | Some c \<Rightarrow> co_CountryShort c)
      in \<lparr>nr_Format = ns_Format session, nr_Nav = nav, nr_Country = countryShort,
          nr_Placeholder = generatePlaceholder nav, nr_Page = page,
          nr_HasNext = (int (sm_currentIndex sm) < int (length (sm_navOrder sm)) - 1)\<rparr>)"

text \<open>
  \<^verbatim>\<open>buildNavResponseFromIndex\<close>: nil past the end of the sequence; a panic where
  the step has no country pointer or the manager no format.
\<close>

definition buildNavResponseFromIndex ::
  "StateManager \<Rightarrow> nat \<Rightarrow> error + NavResponse option" where
  "buildNavResponseFromIndex sm index =
     (if index \<ge> length (sm_navOrder sm) then Inr None
      else let nav = sm_navOrder sm ! index in
        case nav_Country nav of
          None \<Rightarrow> Inl NilDereference
        | Some navCountry \<Rightarrow>
            (let country = findCountry sm navCountry;
                 countryName = (case country of None \<Rightarrow> [] | Some c \<Rightarrow> co_CountryShort c)
             in case sm_format sm of
                  None \<Rightarrow> Inl NilDereference
                | Some format \<Rightarrow>
                    Inr (Some \<lparr>nr_Format = format, nr_Nav = nav, nr_Country = countryName,
                      nr_Placeholder = generatePlaceholder nav, nr_Page = PageNil,
                      nr_HasNext = (int index < int (length (sm_navOrder sm)) - 1)\<rparr>)))"

subsection \<open>Persisting the session\<close>

text \<open>
  The five \<^verbatim>\<open>UPDATE ... SET used = 1\<close> statements of \<^verbatim>\<open>markEntitiesAsUsed\<close>, each
  run for the entity that was found.
\<close>

definition markEntitiesAsUsed ::
  "DB \<Rightarrow> Country option \<Rightarrow> Query option \<Rightarrow> Zip option \<Rightarrow> City option \<Rightarrow> State option
     \<Rightarrow> DB" where
  "markEntitiesAsUsed d country query zipE city state =
     (let d = (case country of None \<Rightarrow> d
               | Some c \<Rightarrow> d\<lparr>countries_tbl :=
                   map (\<lambda>r. if co_CountryShort r = co_CountryShort c
                             then r\<lparr>co_Used := True\<rparr> else r) (countries_tbl d)\<rparr>);
          d = (if query \<noteq> None \<and> qu_ID (the query) \<noteq> None
               then d\<lparr>queries_tbl :=
                   map (\<lambda>r. if qu_ID r = qu_ID (the query)
                             then r\<lparr>qu_Used := True\<rparr> else r) (queries_tbl d)\<rparr>
               else d);
          d = (if zipE \<noteq> None \<and> zp_ID (the zipE) \<noteq> None
               then d\<lparr>zips_tbl :=
                   map (\<lambda>r. if zp_ID r = zp_ID (the zipE)
                             then r\<lparr>zp_Used := True\<rparr> else r) (zips_tbl d)\<rparr>
               else d);
          d = (if city \<noteq> None \<and> ci_ID (the city) \<noteq> None
               then d\<lparr>cities_tbl :=
                   map (\<lambda>r. if ci_ID r = ci_ID (the city)
                             then r\<lparr>ci_Used := True\<rparr> else r) (cities_tbl d)\<rparr>
               else d);
          d = (case state of None \<Rightarrow> d
               | Some s \<Rightarrow> d\<lparr>states_tbl :=
                   map (\<lambda>r. if st_StateShort r = st_StateShort s \<and>
                                st_CountryShort r = st_CountryShort s
                             then r\<lparr>st_Used := True\<rparr> else r) (states_tbl d)\<rparr>)
      in d)"

text \<open>
  The page of the current response as \<^verbatim>\<open>json.Marshal\<close> writes it; an absent page
  gives the empty string.
\<close>

fun page_json :: "page \<Rightarrow> page_text" where
  "page_json PageNil = PageTextEmpty"
| "page_json (PageNavV pages spare tot) = PageTextJSON pages tot"
| "page_json PageCompleted = PageTextCompleted"

text \<open>
  \<^verbatim>\<open>saveCurrentSession\<close>. The entities of the current step are looked up by their
  text; \<^verbatim>\<open>country.CountryShort\<close> panics where the country was not found.
\<close>

definition saveCurrentSession :: "StateManager \<Rightarrow> error option \<times> StateManager" where
  "saveCurrentSession sm =
     (case sm_currentNav sm of
        None \<Rightarrow> (None, sm)
      | Some cur \<Rightarrow>
          (let country = findCountry sm (nr_Country cur);
               query = (case nav_Query (nr_Nav cur) of None \<Rightarrow> None
                        | Some t \<Rightarrow> findQueryByText sm t);
               zipE = (case nav_Zip (nr_Nav cur) of None \<Rightarrow> None
                      | Some t \<Rightarrow> findZipByText sm t);
               city = (case nav_City (nr_Nav cur) of None \<Rightarrow> None
                       | Some t \<Rightarrow> findCityByText sm t);
               state = (case nav_StateShort (nr_Nav cur) of None \<Rightarrow> None
                        | Some t \<Rightarrow> findState sm t);
               pageJSON = page_json (nr_Page cur)
           in case country of
                None \<Rightarrow> (Some NilDereference, sm)
              | Some c \<Rightarrow>
                  (let session = \<lparr>ns_ID = 0, ns_Format = nr_Format cur,
                         ns_CountryShort = co_CountryShort c,
                         ns_QueryID = (case query of None \<Rightarrow> None | Some q \<Rightarrow> qu_ID q),
                         ns_ZipID = (case zipE of None \<Rightarrow> None | Some z \<Rightarrow> zp_ID z),
                         ns_CityID = (case city of None \<Rightarrow> None | Some c \<Rightarrow> ci_ID c),
                         ns_StateShort = (case state of None \<Rightarrow> None
                                          | Some s \<Rightarrow> Some (st_StateShort s)),
                         ns_Page = pageJSON, ns_Completed = False, ns_External = True\<rparr>
                   in case SaveNavSession (sm_db sm) session of
                        (Some e, d) \<Rightarrow> (Some e, sm\<lparr>sm_db := d\<rparr>)
                      | (None, d) \<Rightarrow>
                          (None, sm\<lparr>sm_db := markEntitiesAsUsed d country query zipE
                                                city state\<rparr>))))"

subsection \<open>Restore, advance, pagination\<close>

definition restoreOrStartSession ::
  "go_env \<Rightarrow> StateManager \<Rightarrow> error option \<times> StateManager" where
  "restoreOrStartSession env sm =
     (case GetCurrentNavSession (sm_db sm) of
        Some session \<Rightarrow>
          (let country = findCountry sm (ns_CountryShort session);
               query = (case ns_QueryID session of None \<Rightarrow> None | Some i \<Rightarrow> findQuery sm i);
               zipE = (case ns_ZipID session of None \<Rightarrow> None | Some i \<Rightarrow> findZip sm i);
               city = (case ns_CityID session of None \<Rightarrow> None | Some i \<Rightarrow> findCity sm i);
               state = (case ns_StateShort session of None \<Rightarrow> None
                        | Some t \<Rightarrow> findState sm t);
               sm = sm\<lparr>sm_currentIndex :=
                        findNavIndex sm session country query zipE city state\<rparr>;
               sm = sm\<lparr>sm_currentNav :=
                        Some (buildNavResponse env sm session country query zipE city state)\<rparr>
           in (None, sm))
      | None \<Rightarrow>
          (case buildNavResponseFromIndex sm 0 of
             Inl e \<Rightarrow> (Some e, sm)
           | Inr None \<Rightarrow> (None, sm\<lparr>sm_currentNav := None\<rparr>)
           | Inr (Some cur) \<Rightarrow> saveCurrentSession (sm\<lparr>sm_currentNav := Some cur\<rparr>)))"

definition GetNav :: "StateManager \<Rightarrow> NavResponse option" where
  "GetNav sm = sm_currentNav sm"

definition GetNextNav ::
  "StateManager \<Rightarrow> (NavResponse option \<times> error option) \<times> StateManager" where
  "GetNextNav sm =
     (let session = GetCurrentNavSession (sm_db sm) in
      if session \<noteq> None \<and> \<not> ns_Completed (the session)
      then ((sm_currentNav sm, None), sm)
      else
        (let sm = sm\<lparr>sm_currentIndex := sm_currentIndex sm + 1\<rparr> in
         case buildNavResponseFromIndex sm (sm_currentIndex sm) of
           Inl e \<Rightarrow> ((None, Some e), sm)
         | Inr None \<Rightarrow> ((None, None), sm\<lparr>sm_currentNav := None\<rparr>)
         | Inr (Some cur) \<Rightarrow>
             (case saveCurrentSession (sm\<lparr>sm_currentNav := Some cur\<rparr>) of
                (err, sm') \<Rightarrow> ((sm_currentNav sm', err), sm'))))"

definition GetCurrentNav :: "StateManager \<Rightarrow> NavResponse option" where
  "GetCurrentNav sm = sm_currentNav sm"

text \<open>
  \<^verbatim>\<open>SetPageNav(totalPages, pages)\<close>; \<open>spare\<close> is the capacity of the caller's slice
  beyond its length.
\<close>

definition SetPageNav ::
  "int \<Rightarrow> int list \<Rightarrow> nat \<Rightarrow> StateManager \<Rightarrow> error option \<times> StateManager" where
  "SetPageNav totalPages pages spare sm =
     (case sm_currentNav sm of
        None \<Rightarrow> (None, sm)
      | Some cur \<Rightarrow>
          (let sm = sm\<lparr>sm_currentNav := Some (cur\<lparr>nr_Page := PageNavV pages spare totalPages\<rparr>)\<rparr>
           in case GetCurrentNavSession (sm_db sm) of
                Some session \<Rightarrow>
                  (None, sm\<lparr>sm_db := UpdateNavSession (sm_db sm) (ns_ID session)
                                         [SetPage (PageTextJSON pages totalPages)]\<rparr>)
              | None \<Rightarrow> (None, sm)))"

text \<open>
  \<^verbatim>\<open>MarkComplete\<close>: with an active session and no current response the assignment
  to \<^verbatim>\<open>sm.currentNav.Page\<close> panics, after the session row was updated.
\<close>

definition MarkComplete :: "StateManager \<Rightarrow> error option \<times> StateManager" where
  "MarkComplete sm =
     (case GetCurrentNavSession (sm_db sm) of
        Some session \<Rightarrow>
          (let sm = sm\<lparr>sm_db := UpdateNavSession (sm_db sm) (ns_ID session)
                                    [SetCompleted True]\<rparr>
           in case sm_currentNav sm of
                None \<Rightarrow> (Some NilDereference, sm)
              | Some cur \<Rightarrow> (None, sm\<lparr>sm_currentNav := Some (cur\<lparr>nr_Page := PageCompleted\<rparr>)\<rparr>))
      | None \<Rightarrow> (None, sm))"

text \<open>
  \<^verbatim>\<open>MarkPageAsDone\<close>. \<^verbatim>\<open>pageNav\<close> is a copy of the \<^verbatim>\<open>PageNav\<close> held by the current
  response: the appended, sorted slice goes to the session row and is compared
  with the tot, and is never stored back into \<^verbatim>\<open>sm.currentNav.Page\<close>. Where the
  slice has spare capacity, \<^verbatim>\<open>append\<close> and \<^verbatim>\<open>sort.Ints\<close> work in the backing array
  that the current response shares, which then reads the sorted prefix of its
  old length.
\<close>

definition MarkPageAsDone :: "int \<Rightarrow> StateManager \<Rightarrow> error option \<times> StateManager" where
  "MarkPageAsDone p sm =
     (case sm_currentNav sm of
        None \<Rightarrow> (None, sm)
      | Some cur \<Rightarrow>
          (case nr_Page cur of
             PageCompleted \<Rightarrow> (None, sm)
           | PageNil \<Rightarrow> (None, sm)
           | PageNavV pages spare tot \<Rightarrow>
               (if p \<in> set pages then (None, sm)
                else
                  (let newPages = sort (pages @ [p]);
                       sm = (if spare > 0
                             then sm\<lparr>sm_currentNav := Some (cur\<lparr>nr_Page :=
                                      PageNavV (take (length pages) newPages) spare tot\<rparr>)\<rparr>
                             else sm)
                   in case GetCurrentNavSession (sm_db sm) of
                        Some session \<Rightarrow>
                          (let sm = sm\<lparr>sm_db := UpdateNavSession (sm_db sm) (ns_ID session)
                                                   [SetPage (PageTextJSON newPages tot)]\<rparr>
                           in if int (length newPages) = tot then MarkComplete sm
                              else (None, sm))
                      | None \<Rightarrow> (None, sm)))))"

subsection \<open>Changing the entities\<close>

text \<open>
  \<^verbatim>\<open>refreshData\<close> reloads countries, states and cities (not zips or queries) and
  expands the sequence again.
\<close>

definition refreshData :: "go_env \<Rightarrow> StateManager \<Rightarrow> error option \<times> StateManager" where
  "refreshData env sm =
     (let sm = sm\<lparr>sm_countries := GetCountries (sm_db sm) (sm_targetCountry sm)\<rparr>;
          countryShorts = map co_CountryShort (sm_countries sm);
          sm = sm\<lparr>sm_states := GetStates (sm_db sm) countryShorts\<rparr>;
          stateShorts = map st_StateShort (sm_states sm)
      in case GetCities (sm_db sm) countryShorts stateShorts of
           Inl e \<Rightarrow> (Some e, sm)
         | Inr cities \<Rightarrow> generateNavOrder env (sm\<lparr>sm_cities := cities\<rparr>))"

definition AddSearchQueries ::
  "go_env \<Rightarrow> string list \<Rightarrow> StateManager \<Rightarrow> error option \<times> StateManager" where
  "AddSearchQueries env queries sm =
     (if length queries = 0 then (None, sm)
      else case DB_AddQueries (sm_db sm) queries True of
             (Some e, d) \<Rightarrow> (Some e, sm\<lparr>sm_db := d\<rparr>)
           | (None, d) \<Rightarrow>
               generateNavOrder env (sm\<lparr>sm_db := d, sm_queries := GetQueries d\<rparr>))"

definition ClearSearchQueries :: "go_env \<Rightarrow> StateManager \<Rightarrow> error option \<times> StateManager" where
  "ClearSearchQueries env sm =
     generateNavOrder env (sm\<lparr>sm_db := ClearQueries (sm_db sm), sm_queries := []\<rparr>)"

definition ResetNav :: "go_env \<Rightarrow> StateManager \<Rightarrow> error option \<times> StateManager" where
  "ResetNav env sm =
     restoreOrStartSession env
       (sm\<lparr>sm_db := ResetNavSessions (sm_db sm), sm_currentIndex := 0, sm_currentNav := None\<rparr>)"

definition AddSearchQuery ::
  "go_env \<Rightarrow> string \<Rightarrow> StateManager \<Rightarrow> error option \<times> StateManager" where
  "AddSearchQuery env query sm =
     (if query = [] then (None, sm) else AddSearchQueries env [query] sm)"

text \<open>The anonymous structs taken by the manager's bulk-add operations.\<close>

record CityInput =
  cin_City :: string
  cin_State :: string
  cin_StateShort :: string
  cin_CountryShort :: string

record StateInput =
  sin_State :: string
  sin_StateShort :: string
  sin_County :: "string option"
  sin_CountryShort :: string

record CountryInput =
  coin_Country :: string
  coin_CountryShort :: string

definition AddCities ::
  "go_env \<Rightarrow> CityInput list \<Rightarrow> StateManager \<Rightarrow> error option \<times> StateManager" where
  "AddCities env cities sm =
     (if length cities = 0 then (None, sm)
      else if \<exists>c \<in> set cities. cin_City c = [] \<or> cin_State c = [] \<or>
                cin_StateShort c = [] \<or> cin_CountryShort c = []
      then (Some (ValidationError
              ''all cities must have city, state, stateShort, and countryShort''), sm)
      else
        (let dbCities = map (\<lambda>c. \<lparr>ci_ID = None, ci_City = cin_City c,
                                ci_StateShort = cin_StateShort c,
                                ci_CountryShort = cin_CountryShort c, ci_County = None,
                                ci_Used = False, ci_External = True\<rparr>) cities
         in case DB_AddCities (sm_db sm) dbCities True of
              (Some e, d) \<Rightarrow> (Some e, sm\<lparr>sm_db := d\<rparr>)
            | (None, d) \<Rightarrow> refreshData env (sm\<lparr>sm_db := d\<rparr>)))"

definition AddStates ::
  "go_env \<Rightarrow> StateInput list \<Rightarrow> StateManager \<Rightarrow> error option \<times> StateManager" where
  "AddStates env states sm =
     (if length states = 0 then (None, sm)
      else if \<exists>s \<in> set states. sin_State s = [] \<or> sin_StateShort s = [] \<or>
                sin_CountryShort s = []
      then (Some (ValidationError
              ''all states must have state, stateShort, and countryShort''), sm)
      else
        (let dbStates = map (\<lambda>s. \<lparr>st_ID = None, st_State = sin_State s,
                                st_StateShort = sin_StateShort s,
                                st_CountryShort = sin_CountryShort s,
                                st_Used = False, st_External = True\<rparr>) states
         in case DB_AddStates (sm_db sm) dbStates True of
              (Some e, d) \<Rightarrow> (Some e, sm\<lparr>sm_db := d\<rparr>)
            | (None, d) \<Rightarrow> refreshData env (sm\<lparr>sm_db := d\<rparr>)))"

definition AddCountries ::
  "go_env \<Rightarrow> CountryInput list \<Rightarrow> StateManager \<Rightarrow> error option \<times> StateManager" where
  "AddCountries env countries sm =
     (if length countries = 0 then (None, sm)
      else if \<exists>c \<in> set countries. coin_CountryShort c = [] \<or> coin_Country c = []
      then (Some (ValidationError
              ''all countries must have countryShort and country name''), sm)
      else
        (let dbCountries = map (\<lambda>c. \<lparr>co_ID = None, co_Country = coin_Country c,
                                   co_CountryShort = coin_CountryShort c,
                                   co_Used = False, co_External = True\<rparr>) countries
         in case DB_AddCountries (sm_db sm) dbCountries True of
              (Some e, d) \<Rightarrow> (Some e, sm\<lparr>sm_db := d\<rparr>)
            | (None, d) \<Rightarrow> refreshData env (sm\<lparr>sm_db := d\<rparr>)))"

definition Populate :: "go_env \<Rightarrow> StateManager \<Rightarrow> error option \<times> StateManager" where
  "Populate env sm =
     (let countries = [\<lparr>co_ID = None, co_Country = ''United States'',
                         co_CountryShort = ''US'', co_Used = False, co_External = True\<rparr>];
          states = [\<lparr>st_ID = None, st_State = ''California'', st_StateShort = ''CA'',
                      st_CountryShort = ''US'', st_Used = False, st_External = True\<rparr>];
          zips = [\<lparr>zp_ID = None, zp_Zip = ''90001'', zp_CountryShort = ''US'',
                    zp_Used = False, zp_External = True\<rparr>];
          queries = [''Realtor'', ''Restaurant'']
      in case DB_AddCountries (sm_db sm) countries True of
           (Some e, d) \<Rightarrow> (Some e, sm\<lparr>sm_db := d\<rparr>)
         | (None, d) \<Rightarrow>
        (case DB_AddStates d states True of
           (Some e, d) \<Rightarrow> (Some e, sm\<lparr>sm_db := d\<rparr>)
         | (None, d) \<Rightarrow>
        (case DB_AddZips d zips True of
           (Some e, d) \<Rightarrow> (Some e, sm\<lparr>sm_db := d\<rparr>)
         | (None, d) \<Rightarrow>
        (case DB_AddQueries d queries True of
           (Some e, d) \<Rightarrow> (Some e, sm\<lparr>sm_db := d\<rparr>)
         | (None, d) \<Rightarrow> generateNavOrder env (sm\<lparr>sm_db := d\<rparr>)))))"

definition ResetDatabase :: "go_env \<Rightarrow> StateManager \<Rightarrow> error option \<times> StateManager" where
  "ResetDatabase env sm = refreshData env (sm\<lparr>sm_db := DB_ResetDatabase (sm_db sm)\<rparr>)"

subsection \<open>Initialisation\<close>

text \<open>
  \<^verbatim>\<open>strings.Split\<close> for a non-empty separator (the code splits on \<^verbatim>\<open>"#"\<close> and
  \<^verbatim>\<open>"##"\<close>): \<open>cur\<close> is the part read so far.
\<close>

function split_from :: "string \<Rightarrow> string \<Rightarrow> string \<Rightarrow> string list" where
  "split_from sep cur [] = [cur]"
| "split_from sep cur (c # s) =
     (if sep \<noteq> [] \<and> take (length sep) (c # s) = sep
      then cur # split_from sep [] (drop (length sep) (c # s))
      else split_from sep (cur @ [c]) s)"
  by pat_completeness auto
termination
  by (relation "measure (\<lambda>(sep, cur, s). length s)") auto

definition Split :: "string \<Rightarrow> string \<Rightarrow> string list" where
  "Split s sep = split_from sep [] s"

text \<open>
  The bootstrap data of \<^verbatim>\<open>GetLocationData\<close>, read from a file outside the
  repository. The two Go maps are given as the lists of their entries in the order
  in which \<^verbatim>\<open>range\<close> visits them.
\<close>

record LocationData =
  CityData :: "(string \<times> (string \<times> string list) list) list"
  ZipData :: "(string \<times> string list) list"

record InitOptions =
  opt_Format :: string
  opt_TargetCountry :: string

definition default_countries :: "LocationData \<Rightarrow> Country list" where
  "default_countries ld =
     concat (map (\<lambda>(key, value).
         case Split key ''#'' of
           [countryShort, countryName] \<Rightarrow>
             [\<lparr>co_ID = None, co_Country = countryName, co_CountryShort = countryShort,
               co_Used = False, co_External = False\<rparr>]
         | _ \<Rightarrow> []) (CityData ld))"

definition default_states :: "LocationData \<Rightarrow> State list" where
  "default_states ld =
     concat (map (\<lambda>(key, value).
         case Split key ''#'' of
           [countryShort, countryName] \<Rightarrow>
             concat (map (\<lambda>(k, cities).
                 case Split k ''##'' of
                   [stateShort, stateName] \<Rightarrow>
                     [\<lparr>st_ID = None, st_State = stateName, st_StateShort = stateShort,
                       st_CountryShort = countryShort, st_Used = False,
                       st_External = False\<rparr>]
                 | _ \<Rightarrow> []) value)
         | _ \<Rightarrow> []) (CityData ld))"

definition default_cities :: "LocationData \<Rightarrow> City list" where
  "default_cities ld =
     concat (map (\<lambda>(key, value).
         case Split key ''#'' of
           [countryShort, countryName] \<Rightarrow>
             concat (map (\<lambda>(k, cities).
                 case Split k ''##'' of
                   [stateShort, stateName] \<Rightarrow>
                     map (\<lambda>city. \<lparr>ci_ID = None, ci_City = city, ci_StateShort = stateShort,
                            ci_CountryShort = countryShort, ci_County = None,
                            ci_Used = False, ci_External = False\<rparr>) cities
                 | _ \<Rightarrow> []) value)
         | _ \<Rightarrow> []) (CityData ld))"

definition default_zips :: "LocationData \<Rightarrow> Zip list" where
  "default_zips ld =
     concat (map (\<lambda>(countryShort, zips).
         map (\<lambda>z. \<lparr>zp_ID = None, zp_Zip = z, zp_CountryShort = countryShort,
                zp_Used = False, zp_External = False\<rparr>) zips) (ZipData ld))"

text \<open>
  \<^verbatim>\<open>setDefault\<close>: \<^verbatim>\<open>executeTransaction\<close> only calls its argument, so each of the four
  bulk inserts commits on its own.
\<close>

definition setDefault :: "LocationData \<Rightarrow> StateManager \<Rightarrow> error option \<times> StateManager" where
  "setDefault ld sm =
     (if CountTotal (sm_db sm) > 0 then (None, sm)
      else case DB_AddCountries (sm_db sm) (default_countries ld) False of
           (Some e, d) \<Rightarrow> (Some e, sm\<lparr>sm_db := d\<rparr>)
         | (None, d) \<Rightarrow>
        (case DB_AddStates d (default_states ld) False of
           (Some e, d) \<Rightarrow> (Some e, sm\<lparr>sm_db := d\<rparr>)
         | (None, d) \<Rightarrow>
        (case DB_AddCities d (default_cities ld) False of
           (Some e, d) \<Rightarrow> (Some e, sm\<lparr>sm_db := d\<rparr>)
         | (None, d) \<Rightarrow>
        (case DB_AddZips d (default_zips ld) False of
           (e, d) \<Rightarrow> (e, sm\<lparr>sm_db := d\<rparr>)))))"

definition Init ::
  "go_env \<Rightarrow> LocationData \<Rightarrow> InitOptions \<Rightarrow> StateManager \<Rightarrow> error option \<times> StateManager" where
  "Init env ld options sm =
     (let sm = sm\<lparr>sm_format := Some (opt_Format options),
                  sm_targetCountry := opt_TargetCountry options\<rparr>
      in case setDefault ld sm of
           (Some e, sm) \<Rightarrow> (Some e, sm)
         | (None, sm) \<Rightarrow>
             (let sm = sm\<lparr>sm_countries := GetCountries (sm_db sm) (sm_targetCountry sm)\<rparr>;
                  countryShorts = map co_CountryShort (sm_countries sm);
                  sm = sm\<lparr>sm_states := GetStates (sm_db sm) countryShorts\<rparr>;
                  stateShorts = map st_StateShort (sm_states sm)
              in case GetCities (sm_db sm) countryShorts stateShorts of
                   Inl e \<Rightarrow> (Some e, sm)
                 | Inr cities \<Rightarrow>
                     (let sm = sm\<lparr>sm_cities := cities,
                                  sm_zips := GetZips (sm_db sm) countryShorts,
                                  sm_queries := GetQueries (sm_db sm),
                                  sm_currentIndex := 0\<rparr>
                      in case generateNavOrder env sm of
                           (Some e, sm) \<Rightarrow> (Some e, sm)
                         | (None, sm) \<Rightarrow> restoreOrStartSession env sm)))"

section \<open>Example stores and managers\<close>

text \<open>
  Three countries with one postal code each, two of them with the same code, and
  the manager initialised on that store with the format \<^verbatim>\<open>zip\<close>. Every loop of the
  expansion runs over at most one element here, so the examples do not depend on
  how the toolchain treats loop variables.
\<close>

definition example_env :: go_env where
  "example_env = \<lparr>loopvar_shared = False, unmarshal_spare = 0\<rparr>"

definition no_location_data :: LocationData where
  "no_location_data = \<lparr>CityData = [], ZipData = []\<rparr>"

definition new_country :: "string \<Rightarrow> string \<Rightarrow> Country" where
  "new_country countryShort name =
     \<lparr>co_ID = None, co_Country = name, co_CountryShort = countryShort,
      co_Used = False, co_External = False\<rparr>"

definition new_zip :: "string \<Rightarrow> string \<Rightarrow> Zip" where
  "new_zip z countryShort =
     \<lparr>zp_ID = None, zp_Zip = z, zp_CountryShort = countryShort,
      zp_Used = False, zp_External = False\<rparr>"

definition zip_store :: DB where
  "zip_store =
     snd (DB_AddZips
       (snd (DB_AddCountries empty_db
          [new_country ''AU'' ''Australia'', new_country ''BE'' ''Belgium'',
           new_country ''CH'' ''Switzerland''] False))
       [new_zip ''1000'' ''AU'', new_zip ''1000'' ''BE'', new_zip ''3000'' ''CH''] False)"

definition zip_manager :: StateManager where
  "zip_manager =
     snd (Init example_env no_location_data
       \<lparr>opt_Format = ''zip'', opt_TargetCountry = ''all''\<rparr> (NewStateManager zip_store))"

definition new_state :: "string \<Rightarrow> string \<Rightarrow> string \<Rightarrow> State" where
  "new_state stateShort name countryShort =
     \<lparr>st_ID = None, st_State = name, st_StateShort = stateShort,
      st_CountryShort = countryShort, st_Used = False, st_External = False\<rparr>"

definition new_city :: "string \<Rightarrow> string \<Rightarrow> string \<Rightarrow> City" where
  "new_city name stateShort countryShort =
     \<lparr>ci_ID = None, ci_City = name, ci_StateShort = stateShort,
      ci_CountryShort = countryShort, ci_County = None, ci_Used = False,
      ci_External = False\<rparr>"

definition state_store :: DB where
  "state_store =
     snd (DB_AddStates zip_store [new_state ''NSW'' ''New South Wales'' ''AU''] False)"

text \<open>Batches for the bulk inserts: each bad batch has a record with an empty field.\<close>

definition bad_countries :: "Country list" where
  "bad_countries = [new_country ''DE'' ''Germany'', new_country [] ''Nowhere'']"

definition bad_states :: "State list" where
  "bad_states = [new_state ''VIC'' [] ''AU'']"

definition bad_cities :: "City list" where
  "bad_cities = [new_city ''Sydney'' ''NSW'' ''AU'', new_city [] ''NSW'' ''AU'']"

definition bad_zips :: "Zip list" where
  "bad_zips = [new_zip ''2000'' []]"

definition bad_queries :: "string list" where
  "bad_queries = [''Realtor'', []]"

definition bad_city_inputs :: "CityInput list" where
  "bad_city_inputs = [\<lparr>cin_City = ''Sydney'', cin_State = [], cin_StateShort = ''NSW'',
       cin_CountryShort = ''AU''\<rparr>]"

definition bad_state_inputs :: "StateInput list" where
  "bad_state_inputs = [\<lparr>sin_State = ''Victoria'', sin_StateShort = [], sin_County = None,
       sin_CountryShort = ''AU''\<rparr>]"

definition bad_country_inputs :: "CountryInput list" where
  "bad_country_inputs = [\<lparr>coin_Country = [], coin_CountryShort = ''DE''\<rparr>]"

definition good_countries :: "Country list" where
  "good_countries = [new_country ''DE'' ''Germany'', new_country ''AU'' ''Australia'']"

definition good_states :: "State list" where
  "good_states = [new_state ''VIC'' ''Victoria'' ''AU'']"

definition good_cities :: "City list" where
  "good_cities = [new_city ''Sydney'' ''NSW'' ''AU'', new_city ''Newcastle'' ''NSW'' ''AU'']"

definition good_zips :: "Zip list" where
  "good_zips = [new_zip ''2000'' ''AU'']"

definition good_queries :: "string list" where
  "good_queries = [''Realtor'', ''Restaurant'']"

text \<open>
  A store with one query of the seed kind and one external query, and a manager on
  it.
\<close>

definition query_store :: DB where
  "query_store =
     snd (DB_AddQueries (snd (DB_AddQueries zip_store [''Realtor''] False))
       [''Restaurant''] True)"

definition query_manager :: StateManager where
  "query_manager =
     snd (Init example_env no_location_data
       \<lparr>opt_Format = ''query-zip'', opt_TargetCountry = ''all''\<rparr>
       (NewStateManager query_store))"

text \<open>Marking a list of pages as done, one call of \<^verbatim>\<open>MarkPageAsDone\<close> after the other.\<close>

definition mark_pages :: "int list \<Rightarrow> StateManager \<Rightarrow> StateManager" where
  "mark_pages ps sm = fold (\<lambda>p sm. snd (MarkPageAsDone p sm)) ps sm"

text \<open>
  The order the specification asks of the expansion: the country codes of the
  steps, in sequence, ascend in the byte-wise lexicographic order of strings.
\<close>

fun lex_le :: "string \<Rightarrow> string \<Rightarrow> bool" where
  "lex_le [] ys = True"
| "lex_le (x # xs) [] = False"
| "lex_le (x # xs) (y # ys) = ((of_char x :: nat) < of_char y \<or> (x = y \<and> lex_le xs ys))"

definition codes_lexicographic :: "string list \<Rightarrow> bool" where
  "codes_lexicographic codes = sorted_wrt lex_le codes"

definition nav_country_codes :: "Nav list \<Rightarrow> string list" where
  "nav_country_codes navs = List.map_filter nav_Country navs"

text \<open>
  A store whose countries were inserted as US, then CA, with one state each, and
  the manager initialised on it with the format \<^verbatim>\<open>state\<close>.
\<close>

definition us_ca_store :: DB where
  "us_ca_store =
     snd (DB_AddStates
       (snd (DB_AddCountries empty_db
          [new_country ''US'' ''United States'', new_country ''CA'' ''Canada''] False))
       [new_state ''NY'' ''New York'' ''US'', new_state ''ON'' ''Ontario'' ''CA''] False)"

definition us_ca_manager :: StateManager where
  "us_ca_manager =
     snd (Init example_env no_location_data
       \<lparr>opt_Format = ''state'', opt_TargetCountry = ''all''\<rparr> (NewStateManager us_ca_store))"

section \<open>Properties\<close>

subsection \<open>Facts about the store\<close>

lemma GetCurrentNavSession_Some_iff:
  "(\<exists>s. GetCurrentNavSession d = Some s) \<longleftrightarrow>
   (\<exists>s \<in> set (nav_sessions_tbl d). \<not> ns_Completed s)"
  by (cases "GetCurrentNavSession d")
     (auto simp: GetCurrentNavSession_def find_None_iff find_Some_iff)

lemma GetCurrentNavSession_active:
  "GetCurrentNavSession d = Some s \<Longrightarrow> \<not> ns_Completed s \<and> s \<in> set (nav_sessions_tbl d)"
  by (auto simp: GetCurrentNavSession_def find_Some_iff)

lemma zip_manager_nav:
  "sm_currentNav zip_manager = Some
     \<lparr>nr_Format = ''zip'',
      nr_Nav = \<lparr>nav_Query = None, nav_Zip = Some ''1000'', nav_City = None,
                nav_State = None, nav_StateShort = None, nav_Country = Some ''AU'',
                nav_CountryShort = None, nav_County = None\<rparr>,
      nr_Country = ''AU'', nr_Placeholder = ''1000'', nr_Page = PageNil,
      nr_HasNext = True\<rparr>"
  by code_simp

lemma zip_manager_sessions:
  "nav_sessions_tbl (sm_db zip_manager) =
     [\<lparr>ns_ID = 1, ns_Format = ''zip'', ns_CountryShort = ''AU'', ns_QueryID = None,
       ns_ZipID = Some 1, ns_CityID = None, ns_StateShort = None,
       ns_Page = PageTextEmpty, ns_Completed = False, ns_External = True\<rparr>]"
  by code_simp

subsection \<open>Advance while a session is active\<close>

text \<open>
  C5. In every state whose store holds a session that is not completed,
  \<^verbatim>\<open>GetNextNav\<close> returns the current response with no error and leaves the whole
  state as it is: the cursor, the current response and the store with its session.
\<close>

theorem GetNextNav_active_noop:
  assumes "\<exists>s \<in> set (nav_sessions_tbl (sm_db sm)). \<not> ns_Completed s"
  shows "GetNextNav sm = ((sm_currentNav sm, None), sm)"
proof -
  from assms obtain s where s: "GetCurrentNavSession (sm_db sm) = Some s"
    using GetCurrentNavSession_Some_iff by blast
  then have "\<not> ns_Completed s"
    by (simp add: GetCurrentNavSession_active)
  with s show ?thesis
    by (simp add: GetNextNav_def)
qed

theorem GetNextNav_active_noop_witness:
  "(\<exists>s \<in> set (nav_sessions_tbl (sm_db zip_manager)). \<not> ns_Completed s) \<and>
   GetNextNav zip_manager = ((sm_currentNav zip_manager, None), zip_manager)"
proof -
  have h: "\<exists>s \<in> set (nav_sessions_tbl (sm_db zip_manager)). \<not> ns_Completed s"
    by (simp add: zip_manager_sessions)
  show ?thesis
    using h GetNextNav_active_noop [OF h] by simp
qed

subsection \<open>Pagination without a current step\<close>

text \<open>
  C10. Without a current navigation response, \<^verbatim>\<open>SetPageNav\<close> and \<^verbatim>\<open>MarkPageAsDone\<close>
  return no error and leave the manager and its store unchanged.
\<close>

theorem page_ops_without_nav:
  assumes "sm_currentNav sm = None"
  shows "SetPageNav totalPages pages spare sm = (None, sm) \<and>
         MarkPageAsDone p sm = (None, sm)"
  using assms by (simp add: SetPageNav_def MarkPageAsDone_def)

theorem page_ops_without_nav_witness:
  "sm_currentNav (NewStateManager zip_store) = None \<and>
   SetPageNav 3 [1, 2] 0 (NewStateManager zip_store) = (None, NewStateManager zip_store) \<and>
   MarkPageAsDone 3 (NewStateManager zip_store) = (None, NewStateManager zip_store)"
proof -
  have h: "sm_currentNav (NewStateManager zip_store) = None"
    by (simp add: NewStateManager_def)
  show ?thesis
    using h page_ops_without_nav [OF h, of 3 "[1, 2]" 0 3] by simp
qed

subsection \<open>Bulk inserts\<close>

lemma exec_all_present:
  assumes step: "\<And>x d d'. f x d = Inr d' \<Longrightarrow> P x d' \<and> (\<forall>y. P y d \<longrightarrow> P y d')"
    and run: "exec_all f xs d = Inr d'"
  shows "(\<forall>x \<in> set xs. P x d') \<and> (\<forall>y. P y d \<longrightarrow> P y d')"
  using run
proof (induction xs arbitrary: d)
  case Nil
  then show ?case by simp
next
  case (Cons x xs)
  from Cons.prems obtain d1 where d1: "f x d = Inr d1" and rest: "exec_all f xs d1 = Inr d'"
    by (auto split: sum.splits)
  from Cons.IH [OF rest] step [OF d1] show ?case by auto
qed

lemma exec_all_succeeds:
  assumes step: "\<And>x d. Q x d \<Longrightarrow> \<exists>d'. f x d = Inr d' \<and> (\<forall>y. Q y d \<longrightarrow> Q y d')"
    and pre: "\<forall>x \<in> set xs. Q x d"
  shows "\<exists>d'. exec_all f xs d = Inr d'"
  using pre
proof (induction xs arbitrary: d)
  case Nil
  then show ?case by simp
next
  case (Cons x xs)
  from Cons.prems have "Q x d" by simp
  from step [OF this] obtain d1 where d1: "f x d = Inr d1" and keep: "\<forall>y. Q y d \<longrightarrow> Q y d1"
    by blast
  from Cons.prems keep have "\<forall>y \<in> set xs. Q y d1" by simp
  from Cons.IH [OF this] d1 show ?case by simp
qed

lemma exec_all_error:
  assumes step: "\<And>x d e. f x d = Inl e \<Longrightarrow> e = err"
    and run: "exec_all f xs d = Inl e"
  shows "e = err"
  using run
proof (induction xs arbitrary: d)
  case Nil
  then show ?case by simp
next
  case (Cons x xs)
  then show ?case
    by (auto split: sum.splits dest: step)
qed

lemma insert_country_step:
  "insert_country ext c d = Inr d' \<Longrightarrow>
   has_country d' (co_CountryShort c) \<and>
   (\<forall>y. has_country d (co_CountryShort y) \<longrightarrow> has_country d' (co_CountryShort y))"
  by (auto simp: insert_country_def has_country_def split: if_splits)

lemma insert_state_step:
  "insert_state ext s d = Inr d' \<Longrightarrow>
   has_state d' (st_StateShort s) (st_CountryShort s) \<and>
   (\<forall>y. has_state d (st_StateShort y) (st_CountryShort y) \<longrightarrow>
        has_state d' (st_StateShort y) (st_CountryShort y))"
  by (auto simp: insert_state_def has_state_def split: if_splits)

lemma insert_city_step:
  "insert_city ext c d = Inr d' \<Longrightarrow>
   has_city d' (ci_City c) (ci_StateShort c) (ci_CountryShort c) \<and>
   (\<forall>y. has_city d (ci_City y) (ci_StateShort y) (ci_CountryShort y) \<longrightarrow>
        has_city d' (ci_City y) (ci_StateShort y) (ci_CountryShort y))"
  by (auto simp: insert_city_def has_city_def split: if_splits)

lemma insert_zip_step:
  "insert_zip ext z d = Inr d' \<Longrightarrow>
   has_zip d' (zp_Zip z) (zp_CountryShort z) \<and>
   (\<forall>y. has_zip d (zp_Zip y) (zp_CountryShort y) \<longrightarrow> has_zip d' (zp_Zip y) (zp_CountryShort y))"
  by (auto simp: insert_zip_def has_zip_def split: if_splits)

lemma insert_query_step:
  "insert_query ext q d = Inr d' \<Longrightarrow>
   has_query d' q \<and> (\<forall>y. has_query d y \<longrightarrow> has_query d' y)"
  by (auto simp: insert_query_def has_query_def split: if_splits)

lemma insert_state_ok:
  "has_country d (st_CountryShort s) \<Longrightarrow>
   \<exists>d'. insert_state ext s d = Inr d' \<and>
     (\<forall>y. has_country d (st_CountryShort y) \<longrightarrow> has_country d' (st_CountryShort y))"
  by (auto simp: insert_state_def has_country_def)

lemma insert_zip_ok:
  "has_country d (zp_CountryShort z) \<Longrightarrow>
   \<exists>d'. insert_zip ext z d = Inr d' \<and>
     (\<forall>y. has_country d (zp_CountryShort y) \<longrightarrow> has_country d' (zp_CountryShort y))"
  by (auto simp: insert_zip_def has_country_def)

lemma insert_city_ok:
  "has_state d (ci_StateShort c) (ci_CountryShort c) \<and> has_country d (ci_CountryShort c) \<Longrightarrow>
   \<exists>d'. insert_city ext c d = Inr d' \<and>
     (\<forall>y. has_state d (ci_StateShort y) (ci_CountryShort y) \<and> has_country d (ci_CountryShort y)
        \<longrightarrow> has_state d' (ci_StateShort y) (ci_CountryShort y) \<and> has_country d' (ci_CountryShort y))"
  by (auto simp: insert_city_def has_country_def has_state_def)

lemma insert_country_ok: "\<exists>d'. insert_country ext c d = Inr d'"
  by (simp add: insert_country_def)

lemma insert_query_ok: "\<exists>d'. insert_query ext q d = Inr d'"
  by (simp add: insert_query_def)

lemma insert_state_error: "insert_state ext s d = Inl e \<Longrightarrow> e = fk_failed"
  by (simp add: insert_state_def split: if_splits)

lemma insert_city_error: "insert_city ext c d = Inl e \<Longrightarrow> e = fk_failed"
  by (simp add: insert_city_def split: if_splits)

lemma insert_zip_error: "insert_zip ext z d = Inl e \<Longrightarrow> e = fk_failed"
  by (simp add: insert_zip_def split: if_splits)

lemma DB_AddCountries_valid:
  assumes "list_all country_valid cs"
  shows "\<exists>d'. DB_AddCountries d cs ext = (None, d') \<and>
           (\<forall>c \<in> set cs. has_country d' (co_CountryShort c))"
proof -
  have "\<exists>d'. exec_all (insert_country ext) cs d = Inr d'"
    by (rule exec_all_succeeds [where Q = "\<lambda>x d. True"]) (simp_all add: insert_country_ok)
  then obtain d' where run: "exec_all (insert_country ext) cs d = Inr d'" ..
  have "\<forall>c \<in> set cs. has_country d' (co_CountryShort c)"
    using exec_all_present [where f = "insert_country ext" and P = "\<lambda>c d. has_country d (co_CountryShort c)" and xs = cs and d = d and d' = d']
      insert_country_step run by blast
  with assms run show ?thesis
    by (simp add: DB_AddCountries_def in_tx_def)
qed

lemma DB_AddQueries_valid:
  assumes "list_all query_valid qs"
  shows "\<exists>d'. DB_AddQueries d qs ext = (None, d') \<and> (\<forall>q \<in> set qs. has_query d' q)"
proof -
  have "\<exists>d'. exec_all (insert_query ext) qs d = Inr d'"
    by (rule exec_all_succeeds [where Q = "\<lambda>x d. True"]) (simp_all add: insert_query_ok)
  then obtain d' where run: "exec_all (insert_query ext) qs d = Inr d'" ..
  have "\<forall>q \<in> set qs. has_query d' q"
    using exec_all_present [where f = "insert_query ext" and P = "\<lambda>q d. has_query d q" and xs = qs and d = d and d' = d']
      insert_query_step run by blast
  with assms run show ?thesis
    by (simp add: DB_AddQueries_def in_tx_def)
qed

lemma DB_AddStates_valid:
  assumes "list_all state_valid ss"
  shows "(\<exists>d'. DB_AddStates d ss ext = (None, d') \<and>
            (\<forall>s \<in> set ss. has_state d' (st_StateShort s) (st_CountryShort s)))
         \<or> DB_AddStates d ss ext = (Some fk_failed, d)"
proof (cases "exec_all (insert_state ext) ss d")
  case (Inl e)
  have "e = fk_failed"
    by (rule exec_all_error [where f = "insert_state ext"]) (erule insert_state_error, rule Inl)
  with assms Inl show ?thesis
    by (simp add: DB_AddStates_def in_tx_def)
next
  case (Inr d')
  have "\<forall>s \<in> set ss. has_state d' (st_StateShort s) (st_CountryShort s)"
    using exec_all_present [where f = "insert_state ext" and P = "\<lambda>s d. has_state d (st_StateShort s) (st_CountryShort s)" and xs = ss and d = d and d' = d']
      insert_state_step Inr by blast
  with assms Inr show ?thesis
    by (simp add: DB_AddStates_def in_tx_def)
qed

lemma DB_AddCities_valid:
  assumes "list_all city_valid cs"
  shows "(\<exists>d'. DB_AddCities d cs ext = (None, d') \<and>
            (\<forall>c \<in> set cs. has_city d' (ci_City c) (ci_StateShort c) (ci_CountryShort c)))
         \<or> DB_AddCities d cs ext = (Some fk_failed, d)"
proof (cases "exec_all (insert_city ext) cs d")
  case (Inl e)
  have "e = fk_failed"
    by (rule exec_all_error [where f = "insert_city ext"]) (erule insert_city_error, rule Inl)
  with assms Inl show ?thesis
    by (simp add: DB_AddCities_def in_tx_def)
next
  case (Inr d')
  have "\<forall>c \<in> set cs. has_city d' (ci_City c) (ci_StateShort c) (ci_CountryShort c)"
    using exec_all_present [where f = "insert_city ext" and P = "\<lambda>c d. has_city d (ci_City c) (ci_StateShort c) (ci_CountryShort c)" and xs = cs and d = d and d' = d']
      insert_city_step Inr by blast
  with assms Inr show ?thesis
    by (simp add: DB_AddCities_def in_tx_def)
qed

lemma DB_AddZips_valid:
  assumes "list_all zip_valid zs"
  shows "(\<exists>d'. DB_AddZips d zs ext = (None, d') \<and>
            (\<forall>z \<in> set zs. has_zip d' (zp_Zip z) (zp_CountryShort z)))
         \<or> DB_AddZips d zs ext = (Some fk_failed, d)"
proof (cases "exec_all (insert_zip ext) zs d")
  case (Inl e)
  have "e = fk_failed"
    by (rule exec_all_error [where f = "insert_zip ext"]) (erule insert_zip_error, rule Inl)
  with assms Inl show ?thesis
    by (simp add: DB_AddZips_def in_tx_def)
next
  case (Inr d')
  have "\<forall>z \<in> set zs. has_zip d' (zp_Zip z) (zp_CountryShort z)"
    using exec_all_present [where f = "insert_zip ext" and P = "\<lambda>z d. has_zip d (zp_Zip z) (zp_CountryShort z)" and xs = zs and d = d and d' = d']
      insert_zip_step Inr by blast
  with assms Inr show ?thesis
    by (simp add: DB_AddZips_def in_tx_def)
qed

lemma DB_AddStates_parents:
  assumes "list_all state_valid ss"
    and "\<forall>s \<in> set ss. has_country d (st_CountryShort s)"
  shows "fst (DB_AddStates d ss ext) = None"
proof -
  have "\<exists>d'. exec_all (insert_state ext) ss d = Inr d'"
    by (rule exec_all_succeeds
          [where Q = "\<lambda>s d. has_country d (st_CountryShort s)", OF insert_state_ok])
       (use assms in simp_all)
  with assms show ?thesis
    by (auto simp: DB_AddStates_def in_tx_def)
qed

lemma DB_AddZips_parents:
  assumes "list_all zip_valid zs"
    and "\<forall>z \<in> set zs. has_country d (zp_CountryShort z)"
  shows "fst (DB_AddZips d zs ext) = None"
proof -
  have "\<exists>d'. exec_all (insert_zip ext) zs d = Inr d'"
    by (rule exec_all_succeeds
          [where Q = "\<lambda>z d. has_country d (zp_CountryShort z)", OF insert_zip_ok])
       (use assms in simp_all)
  with assms show ?thesis
    by (auto simp: DB_AddZips_def in_tx_def)
qed

lemma DB_AddCities_parents:
  assumes "list_all city_valid cs"
    and "\<forall>c \<in> set cs. has_state d (ci_StateShort c) (ci_CountryShort c) \<and>
           has_country d (ci_CountryShort c)"
  shows "fst (DB_AddCities d cs ext) = None"
proof -
  have "\<exists>d'. exec_all (insert_city ext) cs d = Inr d'"
    by (rule exec_all_succeeds
          [where Q = "\<lambda>c d. has_state d (ci_StateShort c) (ci_CountryShort c) \<and>
                            has_country d (ci_CountryShort c)", OF insert_city_ok])
       (use assms in simp_all)
  with assms show ?thesis
    by (auto simp: DB_AddCities_def in_tx_def)
qed

lemma AddCities_invalid:
  assumes "\<exists>c \<in> set cities. cin_City c = [] \<or> cin_State c = [] \<or> cin_StateShort c = [] \<or>
             cin_CountryShort c = []"
  shows "AddCities env cities sm =
           (Some (ValidationError
              ''all cities must have city, state, stateShort, and countryShort''), sm)"
proof -
  from assms have "cities \<noteq> []" by auto
  with assms show ?thesis by (simp add: AddCities_def)
qed

lemma AddStates_invalid:
  assumes "\<exists>s \<in> set states. sin_State s = [] \<or> sin_StateShort s = [] \<or> sin_CountryShort s = []"
  shows "AddStates env states sm =
           (Some (ValidationError
              ''all states must have state, stateShort, and countryShort''), sm)"
proof -
  from assms have "states \<noteq> []" by auto
  with assms show ?thesis by (simp add: AddStates_def)
qed

lemma AddCountries_invalid:
  assumes "\<exists>c \<in> set countries. coin_CountryShort c = [] \<or> coin_Country c = []"
  shows "AddCountries env countries sm =
           (Some (ValidationError
              ''all countries must have countryShort and country name''), sm)"
proof -
  from assms have "countries \<noteq> []" by auto
  with assms show ?thesis by (simp add: AddCountries_def)
qed

lemma AddSearchQueries_invalid:
  assumes "\<not> list_all query_valid queries"
  shows "AddSearchQueries env queries sm =
           (Some (ValidationError ''all queries must be non-empty strings''), sm)"
proof -
  from assms have "queries \<noteq> []" by auto
  with assms show ?thesis by (simp add: AddSearchQueries_def DB_AddQueries_def)
qed

text \<open>
  C8. Every bulk insert of the store checks the whole batch first: a batch with a
  record that misses a required field yields the validation error of its table and
  the store as it was. A batch of valid records runs its inserts in one
  transaction: for countries and queries it commits, and every record is in the
  table afterwards; for states, cities and zips it commits with every record in
  the table, or, where the store refuses a record for a missing parent row, rolls
  back to the store as it was; it commits whenever the parents are there. The
  manager's bulk-add operations on an invalid batch return their validation error
  with the manager and its store unchanged.
\<close>

theorem bulk_add_all_or_nothing:
  "(\<not> list_all country_valid cs \<longrightarrow>
      DB_AddCountries d cs ext =
        (Some (ValidationError ''all countries must have countryShort and country''), d))
   \<and> (\<not> list_all state_valid ss \<longrightarrow>
      DB_AddStates d ss ext =
        (Some (ValidationError
           ''all states must have stateShort, state, and countryShort''), d))
   \<and> (\<not> list_all city_valid cis \<longrightarrow>
      DB_AddCities d cis ext =
        (Some (ValidationError
           ''all cities must have city, stateShort, and countryShort''), d))
   \<and> (\<not> list_all zip_valid zs \<longrightarrow>
      DB_AddZips d zs ext =
        (Some (ValidationError ''all zips must have zip and countryShort''), d))
   \<and> (\<not> list_all query_valid qs \<longrightarrow>
      DB_AddQueries d qs ext =
        (Some (ValidationError ''all queries must be non-empty strings''), d))
   \<and> (list_all country_valid cs \<longrightarrow>
      (\<exists>d'. DB_AddCountries d cs ext = (None, d') \<and>
         (\<forall>c \<in> set cs. has_country d' (co_CountryShort c))))
   \<and> (list_all query_valid qs \<longrightarrow>
      (\<exists>d'. DB_AddQueries d qs ext = (None, d') \<and> (\<forall>q \<in> set qs. has_query d' q)))
   \<and> (list_all state_valid ss \<longrightarrow>
      (\<exists>d'. DB_AddStates d ss ext = (None, d') \<and>
         (\<forall>s \<in> set ss. has_state d' (st_StateShort s) (st_CountryShort s)))
      \<or> DB_AddStates d ss ext = (Some fk_failed, d))
   \<and> (list_all city_valid cis \<longrightarrow>
      (\<exists>d'. DB_AddCities d cis ext = (None, d') \<and>
         (\<forall>c \<in> set cis. has_city d' (ci_City c) (ci_StateShort c) (ci_CountryShort c)))
      \<or> DB_AddCities d cis ext = (Some fk_failed, d))
   \<and> (list_all zip_valid zs \<longrightarrow>
      (\<exists>d'. DB_AddZips d zs ext = (None, d') \<and>
         (\<forall>z \<in> set zs. has_zip d' (zp_Zip z) (zp_CountryShort z)))
      \<or> DB_AddZips d zs ext = (Some fk_failed, d))
   \<and> (list_all state_valid ss \<and> (\<forall>s \<in> set ss. has_country d (st_CountryShort s)) \<longrightarrow>
      fst (DB_AddStates d ss ext) = None)
   \<and> (list_all city_valid cis \<and>
       (\<forall>c \<in> set cis. has_state d (ci_StateShort c) (ci_CountryShort c) \<and>
          has_country d (ci_CountryShort c)) \<longrightarrow>
      fst (DB_AddCities d cis ext) = None)
   \<and> (list_all zip_valid zs \<and> (\<forall>z \<in> set zs. has_country d (zp_CountryShort z)) \<longrightarrow>
      fst (DB_AddZips d zs ext) = None)
   \<and> ((\<exists>c \<in> set cityInputs. cin_City c = [] \<or> cin_State c = [] \<or> cin_StateShort c = [] \<or>
          cin_CountryShort c = []) \<longrightarrow>
      AddCities env cityInputs sm =
        (Some (ValidationError
           ''all cities must have city, state, stateShort, and countryShort''), sm))
   \<and> ((\<exists>s \<in> set stateInputs. sin_State s = [] \<or> sin_StateShort s = [] \<or>
          sin_CountryShort s = []) \<longrightarrow>
      AddStates env stateInputs sm =
        (Some (ValidationError
           ''all states must have state, stateShort, and countryShort''), sm))
   \<and> ((\<exists>c \<in> set countryInputs. coin_CountryShort c = [] \<or> coin_Country c = []) \<longrightarrow>
      AddCountries env countryInputs sm =
        (Some (ValidationError
           ''all countries must have countryShort and country name''), sm))
   \<and> (\<not> list_all query_valid qs \<longrightarrow>
      AddSearchQueries env qs sm =
        (Some (ValidationError ''all queries must be non-empty strings''), sm))"
proof (intro conjI impI)
  show "list_all country_valid cs \<Longrightarrow>
      \<exists>d'. DB_AddCountries d cs ext = (None, d') \<and>
         (\<forall>c \<in> set cs. has_country d' (co_CountryShort c))"
    by (rule DB_AddCountries_valid)
  show "list_all query_valid qs \<Longrightarrow>
      \<exists>d'. DB_AddQueries d qs ext = (None, d') \<and> (\<forall>q \<in> set qs. has_query d' q)"
    by (rule DB_AddQueries_valid)
  show "list_all state_valid ss \<Longrightarrow>
      (\<exists>d'. DB_AddStates d ss ext = (None, d') \<and>
         (\<forall>s \<in> set ss. has_state d' (st_StateShort s) (st_CountryShort s)))
      \<or> DB_AddStates d ss ext = (Some fk_failed, d)"
    by (rule DB_AddStates_valid)
  show "list_all city_valid cis \<Longrightarrow>
      (\<exists>d'. DB_AddCities d cis ext = (None, d') \<and>
         (\<forall>c \<in> set cis. has_city d' (ci_City c) (ci_StateShort c) (ci_CountryShort c)))
      \<or> DB_AddCities d cis ext = (Some fk_failed, d)"
    by (rule DB_AddCities_valid)
  show "list_all zip_valid zs \<Longrightarrow>
      (\<exists>d'. DB_AddZips d zs ext = (None, d') \<and>
         (\<forall>z \<in> set zs. has_zip d' (zp_Zip z) (zp_CountryShort z)))
      \<or> DB_AddZips d zs ext = (Some fk_failed, d)"
    by (rule DB_AddZips_valid)
  show "list_all state_valid ss \<and> (\<forall>s \<in> set ss. has_country d (st_CountryShort s)) \<Longrightarrow>
      fst (DB_AddStates d ss ext) = None"
    by (simp add: DB_AddStates_parents)
  show "list_all city_valid cis \<and>
       (\<forall>c \<in> set cis. has_state d (ci_StateShort c) (ci_CountryShort c) \<and>
          has_country d (ci_CountryShort c)) \<Longrightarrow>
      fst (DB_AddCities d cis ext) = None"
    by (simp add: DB_AddCities_parents)
  show "list_all zip_valid zs \<and> (\<forall>z \<in> set zs. has_country d (zp_CountryShort z)) \<Longrightarrow>
      fst (DB_AddZips d zs ext) = None"
    by (simp add: DB_AddZips_parents)
qed (simp_all add: DB_AddCountries_def DB_AddStates_def DB_AddCities_def DB_AddZips_def
       DB_AddQueries_def AddCities_invalid AddStates_invalid AddCountries_invalid
       AddSearchQueries_invalid del: list_all_iff)

lemma state_store_parents:
  "has_country state_store ''AU''" "has_state state_store ''NSW'' ''AU''"
  by code_simp+

theorem bulk_add_all_or_nothing_witness:
  "\<not> list_all country_valid bad_countries
   \<and> DB_AddCountries state_store bad_countries True =
       (Some (ValidationError ''all countries must have countryShort and country''),
        state_store)
   \<and> \<not> list_all state_valid bad_states
   \<and> DB_AddStates state_store bad_states True =
       (Some (ValidationError
          ''all states must have stateShort, state, and countryShort''), state_store)
   \<and> \<not> list_all city_valid bad_cities
   \<and> DB_AddCities state_store bad_cities True =
       (Some (ValidationError
          ''all cities must have city, stateShort, and countryShort''), state_store)
   \<and> \<not> list_all zip_valid bad_zips
   \<and> DB_AddZips state_store bad_zips True =
       (Some (ValidationError ''all zips must have zip and countryShort''), state_store)
   \<and> \<not> list_all query_valid bad_queries
   \<and> DB_AddQueries state_store bad_queries True =
       (Some (ValidationError ''all queries must be non-empty strings''), state_store)
   \<and> AddCities example_env bad_city_inputs zip_manager =
       (Some (ValidationError
          ''all cities must have city, state, stateShort, and countryShort''), zip_manager)
   \<and> AddStates example_env bad_state_inputs zip_manager =
       (Some (ValidationError
          ''all states must have state, stateShort, and countryShort''), zip_manager)
   \<and> AddCountries example_env bad_country_inputs zip_manager =
       (Some (ValidationError
          ''all countries must have countryShort and country name''), zip_manager)
   \<and> AddSearchQueries example_env bad_queries zip_manager =
       (Some (ValidationError ''all queries must be non-empty strings''), zip_manager)
   \<and> list_all country_valid good_countries
   \<and> (\<exists>d'. DB_AddCountries state_store good_countries True = (None, d') \<and>
         has_country d' ''DE'' \<and> has_country d' ''AU'')
   \<and> list_all query_valid good_queries
   \<and> (\<exists>d'. DB_AddQueries state_store good_queries True = (None, d') \<and>
         has_query d' ''Realtor'' \<and> has_query d' ''Restaurant'')
   \<and> list_all state_valid good_states
   \<and> (\<forall>s \<in> set good_states. has_country state_store (st_CountryShort s))
   \<and> (\<exists>d'. DB_AddStates state_store good_states True = (None, d') \<and>
         has_state d' ''VIC'' ''AU'')
   \<and> list_all city_valid good_cities
   \<and> (\<forall>c \<in> set good_cities. has_state state_store (ci_StateShort c) (ci_CountryShort c) \<and>
         has_country state_store (ci_CountryShort c))
   \<and> (\<exists>d'. DB_AddCities state_store good_cities True = (None, d') \<and>
         has_city d' ''Sydney'' ''NSW'' ''AU'' \<and> has_city d' ''Newcastle'' ''NSW'' ''AU'')
   \<and> list_all zip_valid good_zips
   \<and> (\<forall>z \<in> set good_zips. has_country state_store (zp_CountryShort z))
   \<and> (\<exists>d'. DB_AddZips state_store good_zips True = (None, d') \<and> has_zip d' ''2000'' ''AU'')"
proof -
  have bad: "\<not> list_all country_valid bad_countries" "\<not> list_all state_valid bad_states"
    "\<not> list_all city_valid bad_cities" "\<not> list_all zip_valid bad_zips"
    "\<not> list_all query_valid bad_queries"
    "\<exists>c \<in> set bad_city_inputs. cin_City c = [] \<or> cin_State c = [] \<or>
       cin_StateShort c = [] \<or> cin_CountryShort c = []"
    "\<exists>s \<in> set bad_state_inputs. sin_State s = [] \<or> sin_StateShort s = [] \<or>
       sin_CountryShort s = []"
    "\<exists>c \<in> set bad_country_inputs. coin_CountryShort c = [] \<or> coin_Country c = []"
    by (simp_all add: bad_countries_def bad_states_def bad_cities_def bad_zips_def
          bad_queries_def bad_city_inputs_def bad_state_inputs_def bad_country_inputs_def
          country_valid_def state_valid_def city_valid_def zip_valid_def query_valid_def
          new_country_def new_state_def new_city_def new_zip_def)
  have good: "list_all country_valid good_countries" "list_all state_valid good_states"
    "list_all city_valid good_cities" "list_all zip_valid good_zips"
    "list_all query_valid good_queries"
    by (simp_all add: good_countries_def good_states_def good_cities_def good_zips_def
          good_queries_def country_valid_def state_valid_def city_valid_def zip_valid_def
          query_valid_def new_country_def new_state_def new_city_def new_zip_def)
  have parents: "\<forall>s \<in> set good_states. has_country state_store (st_CountryShort s)"
    "\<forall>c \<in> set good_cities. has_state state_store (ci_StateShort c) (ci_CountryShort c) \<and>
       has_country state_store (ci_CountryShort c)"
    "\<forall>z \<in> set good_zips. has_country state_store (zp_CountryShort z)"
    by (simp_all add: good_states_def good_cities_def good_zips_def new_state_def
          new_city_def new_zip_def state_store_parents)
  note invalid = bulk_add_all_or_nothing
    [where cs = bad_countries and ss = bad_states and cis = bad_cities and zs = bad_zips
       and qs = bad_queries and cityInputs = bad_city_inputs
       and stateInputs = bad_state_inputs and countryInputs = bad_country_inputs
       and d = state_store and ext = True and env = example_env and sm = zip_manager]
  note valid = bulk_add_all_or_nothing
    [where cs = good_countries and ss = good_states and cis = good_cities and zs = good_zips
       and qs = good_queries and cityInputs = bad_city_inputs
       and stateInputs = bad_state_inputs and countryInputs = bad_country_inputs
       and d = state_store and ext = True and env = example_env and sm = zip_manager]
  have members: "set good_countries = {new_country ''DE'' ''Germany'', new_country ''AU'' ''Australia''}"
    "set good_queries = {''Realtor'', ''Restaurant''}"
    "set good_states = {new_state ''VIC'' ''Victoria'' ''AU''}"
    "set good_cities = {new_city ''Sydney'' ''NSW'' ''AU'', new_city ''Newcastle'' ''NSW'' ''AU''}"
    "set good_zips = {new_zip ''2000'' ''AU''}"
    by (simp_all add: good_countries_def good_states_def good_cities_def good_zips_def
          good_queries_def)
  from valid good have free:
    "\<exists>d'. DB_AddCountries state_store good_countries True = (None, d') \<and>
         (\<forall>c \<in> set good_countries. has_country d' (co_CountryShort c))"
    "\<exists>d'. DB_AddQueries state_store good_queries True = (None, d') \<and>
         (\<forall>q \<in> set good_queries. has_query d' q)"
    by (simp_all del: list_all_iff)
  from valid good have either:
    "(\<exists>d'. DB_AddStates state_store good_states True = (None, d') \<and>
         (\<forall>s \<in> set good_states. has_state d' (st_StateShort s) (st_CountryShort s)))
     \<or> DB_AddStates state_store good_states True = (Some fk_failed, state_store)"
    "(\<exists>d'. DB_AddCities state_store good_cities True = (None, d') \<and>
         (\<forall>c \<in> set good_cities.
            has_city d' (ci_City c) (ci_StateShort c) (ci_CountryShort c)))
     \<or> DB_AddCities state_store good_cities True = (Some fk_failed, state_store)"
    "(\<exists>d'. DB_AddZips state_store good_zips True = (None, d') \<and>
         (\<forall>z \<in> set good_zips. has_zip d' (zp_Zip z) (zp_CountryShort z)))
     \<or> DB_AddZips state_store good_zips True = (Some fk_failed, state_store)"
    by (simp_all del: list_all_iff)
  from valid good parents have committed:
    "fst (DB_AddStates state_store good_states True) = None"
    "fst (DB_AddCities state_store good_cities True) = None"
    "fst (DB_AddZips state_store good_zips True) = None"
    by (simp_all del: list_all_iff)
  from either(1) committed(1) have ok_states:
    "\<exists>d'. DB_AddStates state_store good_states True = (None, d') \<and>
         (\<forall>s \<in> set good_states. has_state d' (st_StateShort s) (st_CountryShort s))"
    by auto
  from either(2) committed(2) have ok_cities:
    "\<exists>d'. DB_AddCities state_store good_cities True = (None, d') \<and>
         (\<forall>c \<in> set good_cities.
            has_city d' (ci_City c) (ci_StateShort c) (ci_CountryShort c))"
    by auto
  from either(3) committed(3) have ok_zips:
    "\<exists>d'. DB_AddZips state_store good_zips True = (None, d') \<and>
         (\<forall>z \<in> set good_zips. has_zip d' (zp_Zip z) (zp_CountryShort z))"
    by auto
  note ok = free ok_states ok_cities ok_zips
  from ok members have ok':
    "\<exists>d'. DB_AddCountries state_store good_countries True = (None, d') \<and>
         has_country d' ''DE'' \<and> has_country d' ''AU''"
    "\<exists>d'. DB_AddQueries state_store good_queries True = (None, d') \<and>
         has_query d' ''Realtor'' \<and> has_query d' ''Restaurant''"
    "\<exists>d'. DB_AddStates state_store good_states True = (None, d') \<and>
         has_state d' ''VIC'' ''AU''"
    "\<exists>d'. DB_AddCities state_store good_cities True = (None, d') \<and>
         has_city d' ''Sydney'' ''NSW'' ''AU'' \<and> has_city d' ''Newcastle'' ''NSW'' ''AU''"
    "\<exists>d'. DB_AddZips state_store good_zips True = (None, d') \<and> has_zip d' ''2000'' ''AU''"
    by (simp_all add: new_country_def new_state_def new_city_def new_zip_def)
  from invalid bad have failed:
    "DB_AddCountries state_store bad_countries True =
       (Some (ValidationError ''all countries must have countryShort and country''),
        state_store)"
    "DB_AddStates state_store bad_states True =
       (Some (ValidationError
          ''all states must have stateShort, state, and countryShort''), state_store)"
    "DB_AddCities state_store bad_cities True =
       (Some (ValidationError
          ''all cities must have city, stateShort, and countryShort''), state_store)"
    "DB_AddZips state_store bad_zips True =
       (Some (ValidationError ''all zips must have zip and countryShort''), state_store)"
    "DB_AddQueries state_store bad_queries True =
       (Some (ValidationError ''all queries must be non-empty strings''), state_store)"
    "AddCities example_env bad_city_inputs zip_manager =
       (Some (ValidationError
          ''all cities must have city, state, stateShort, and countryShort''), zip_manager)"
    "AddStates example_env bad_state_inputs zip_manager =
       (Some (ValidationError
          ''all states must have state, stateShort, and countryShort''), zip_manager)"
    "AddCountries example_env bad_country_inputs zip_manager =
       (Some (ValidationError
          ''all countries must have countryShort and country name''), zip_manager)"
    "AddSearchQueries example_env bad_queries zip_manager =
       (Some (ValidationError ''all queries must be non-empty strings''), zip_manager)"
    by (simp_all del: list_all_iff)
  from bad good parents failed ok' show ?thesis
    by (intro conjI) assumption+
qed

subsection \<open>Clearing the queries\<close>

lemma generateNavOrder_frame:
  "\<exists>navs. snd (generateNavOrder env sm) = sm\<lparr>sm_navOrder := navs\<rparr>"
  by (auto simp: generateNavOrder_def split: option.splits)

lemma query_manager_queries:
  "queries_tbl (sm_db query_manager) =
     [\<lparr>qu_ID = Some 1, qu_Query = ''Realtor'', qu_Used = True, qu_External = False\<rparr>,
      \<lparr>qu_ID = Some 2, qu_Query = ''Restaurant'', qu_Used = False, qu_External = True\<rparr>]"
  by code_simp

text \<open>
  C9. \<^verbatim>\<open>ClearSearchQueries\<close> leaves in the store exactly the query rows that are not
  external, unchanged and in their order, and empties the manager's list of
  queries.
\<close>

theorem ClearSearchQueries_keeps_internal:
  "queries_tbl (sm_db (snd (ClearSearchQueries env sm))) =
     filter (\<lambda>q. \<not> qu_External q) (queries_tbl (sm_db sm)) \<and>
   sm_queries (snd (ClearSearchQueries env sm)) = []"
proof -
  obtain navs where
    "snd (ClearSearchQueries env sm) =
       sm\<lparr>sm_db := ClearQueries (sm_db sm), sm_queries := [], sm_navOrder := navs\<rparr>"
    unfolding ClearSearchQueries_def using generateNavOrder_frame by blast
  then show ?thesis
    by (simp add: ClearQueries_def Let_def)
qed

theorem ClearSearchQueries_keeps_internal_witness:
  "queries_tbl (sm_db (snd (ClearSearchQueries example_env query_manager))) =
     [\<lparr>qu_ID = Some 1, qu_Query = ''Realtor'', qu_Used = True, qu_External = False\<rparr>] \<and>
   sm_queries (snd (ClearSearchQueries example_env query_manager)) = []"
  using ClearSearchQueries_keeps_internal [of example_env query_manager]
  by (simp add: query_manager_queries)

subsection \<open>Marking pages\<close>

lemma UpdateNavSession_page_completed:
  "map ns_Completed (nav_sessions_tbl (UpdateNavSession d i [SetPage t])) =
   map ns_Completed (nav_sessions_tbl d)"
  by (simp add: UpdateNavSession_def comp_def)

text \<open>
  With an empty page list in the current response and a total other than 1, one
  call of \<^verbatim>\<open>MarkPageAsDone\<close> leaves the response as it is, page list included, and
  completes no session.
\<close>

lemma MarkPageAsDone_empty_pages:
  assumes nav: "sm_currentNav sm = Some cur"
    and page: "nr_Page cur = PageNavV [] spare tot"
    and tot: "tot \<noteq> 1"
  shows "fst (MarkPageAsDone p sm) = None \<and>
         sm_currentNav (snd (MarkPageAsDone p sm)) = Some cur \<and>
         map ns_Completed (nav_sessions_tbl (sm_db (snd (MarkPageAsDone p sm)))) =
           map ns_Completed (nav_sessions_tbl (sm_db sm))"
proof (cases "GetCurrentNavSession (sm_db sm)")
  case None
  have "cur\<lparr>nr_Page := PageNavV [] spare tot\<rparr> = cur"
    using page by simp
  with None nav page show ?thesis
    by (simp add: MarkPageAsDone_def Let_def)
next
  case (Some session)
  have "cur\<lparr>nr_Page := PageNavV [] spare tot\<rparr> = cur"
    using page by simp
  with Some nav page tot show ?thesis
    by (simp add: MarkPageAsDone_def Let_def UpdateNavSession_page_completed)
qed

lemma mark_pages_empty:
  assumes "sm_currentNav sm = Some cur"
    and "nr_Page cur = PageNavV [] spare tot"
    and "tot \<noteq> 1"
  shows "sm_currentNav (mark_pages ps sm) = Some cur \<and>
         map ns_Completed (nav_sessions_tbl (sm_db (mark_pages ps sm))) =
           map ns_Completed (nav_sessions_tbl (sm_db sm))"
  using assms
proof (induction ps arbitrary: sm)
  case Nil
  then show ?case by (simp add: mark_pages_def)
next
  case (Cons p ps)
  let ?sm = "snd (MarkPageAsDone p sm)"
  from MarkPageAsDone_empty_pages [OF Cons.prems, of p]
  have nav: "sm_currentNav ?sm = Some cur"
    and ses: "map ns_Completed (nav_sessions_tbl (sm_db ?sm)) =
              map ns_Completed (nav_sessions_tbl (sm_db sm))"
    by simp_all
  from Cons.IH [OF nav Cons.prems(2,3)] ses show ?case
    by (simp add: mark_pages_def)
qed

lemma paged_zip_manager:
  "sm_currentNav (snd (SetPageNav 3 [] spare zip_manager)) =
     Some (the (sm_currentNav zip_manager)\<lparr>nr_Page := PageNavV [] spare 3\<rparr>)"
  "map ns_Completed (nav_sessions_tbl (sm_db (snd (SetPageNav 3 [] spare zip_manager)))) =
     [False]"
  by (simp_all add: SetPageNav_def zip_manager_nav zip_manager_sessions
        GetCurrentNavSession_def UpdateNavSession_def Let_def)

text \<open>
  C1 (the code departs from the claim). On the manager of the example, after
  \<^verbatim>\<open>SetPageNav(3, [])\<close> with a slice of any capacity, marking any pages in any
  order, so also 1, 2, 3, leaves the one session not completed and the page of the
  current response a \<^verbatim>\<open>PageNav\<close> with no page in it: \<^verbatim>\<open>MarkPageAsDone\<close> never
  stores the grown page list back, so its length never reaches the total.
\<close>

theorem MarkPageAsDone_never_completes:
  "map ns_Completed
     (nav_sessions_tbl (sm_db (mark_pages ps (snd (SetPageNav 3 [] spare zip_manager))))) =
     [False] \<and>
   map_option nr_Page (sm_currentNav (mark_pages ps (snd (SetPageNav 3 [] spare zip_manager))))
     = Some (PageNavV [] spare 3) \<and>
   mark_pages [1, 2, 3] sm = snd (MarkPageAsDone 3 (snd (MarkPageAsDone 2
     (snd (MarkPageAsDone 1 sm)))))"
proof -
  let ?sm = "snd (SetPageNav 3 [] spare zip_manager)"
  let ?cur = "the (sm_currentNav zip_manager)\<lparr>nr_Page := PageNavV [] spare 3\<rparr>"
  have "sm_currentNav (mark_pages ps ?sm) = Some ?cur \<and>
        map ns_Completed (nav_sessions_tbl (sm_db (mark_pages ps ?sm))) =
          map ns_Completed (nav_sessions_tbl (sm_db ?sm))"
    by (rule mark_pages_empty [where spare = spare and tot = 3])
       (simp_all add: paged_zip_manager)
  then show ?thesis
    by (simp add: paged_zip_manager mark_pages_def)
qed

subsection \<open>The order of the expansion\<close>

lemma builders_country:
  "n \<in> set (zip_navs env q cs c zips) \<Longrightarrow> nav_Country n = Some (co_CountryShort c)"
  "n \<in> set (city_navs env q c cities) \<Longrightarrow> nav_Country n = Some (co_CountryShort c)"
  "n \<in> set (city_state_navs env q cs c states cities) \<Longrightarrow>
     nav_Country n = Some (co_CountryShort c)"
  "n \<in> set (state_navs env q cs c states) \<Longrightarrow> nav_Country n = Some (co_CountryShort c)"
  "n \<in> set (county_navs q c cities) \<Longrightarrow> nav_Country n = Some (co_CountryShort c)"
  by (auto simp: zip_navs_def city_navs_def city_state_navs_def state_navs_def county_navs_def
       split: option.splits if_splits)

lemma addNavForQuery_append:
  "addNavForQuery env f query c states cities zips acc =
   acc @ addNavForQuery env f query c states cities zips []"
  by (simp add: addNavForQuery_def Let_def)

lemma addNavForQuery_country:
  "n \<in> set (addNavForQuery env f query c states cities zips []) \<Longrightarrow>
     nav_Country n = Some (co_CountryShort c)"
  by (auto simp: addNavForQuery_def Let_def empty_Nav_def builders_country
        split: if_splits)

lemma fold_addNavForQuery:
  "fold (\<lambda>query acc. addNavForQuery env f (Some query) c states cities zips acc) qs acc =
   acc @ concat (map (\<lambda>query. addNavForQuery env f (Some query) c states cities zips []) qs)"
proof (induction qs arbitrary: acc)
  case Nil
  then show ?case by simp
next
  case (Cons q qs)
  show ?case
    by (simp add: Cons.IH addNavForQuery_append [where acc = acc])
qed

lemma country_step_append:
  "country_step env f sm c acc = acc @ country_step env f sm c []"
  by (simp add: country_step_def Let_def fold_addNavForQuery
        addNavForQuery_append [where acc = acc])

lemma country_step_country:
  "n \<in> set (country_step env f sm c []) \<Longrightarrow> nav_Country n = Some (co_CountryShort c)"
  by (auto simp: country_step_def Let_def fold_addNavForQuery addNavForQuery_country
        split: if_splits)

lemma fold_country_step:
  "fold (country_step env f sm) cs acc =
   acc @ concat (map (\<lambda>c. country_step env f sm c []) cs)"
proof (induction cs arbitrary: acc)
  case Nil
  then show ?case by simp
next
  case (Cons c cs)
  show ?case
    by (simp add: Cons.IH country_step_append [where acc = acc])
qed

lemma map_const_replicate:
  "\<forall>x \<in> set xs. g x = v \<Longrightarrow> map g xs = replicate (length xs) v"
  by (induction xs) auto


lemma generateNavOrder_concat:
  assumes "sm_format sm = Some f"
  shows "sm_navOrder (snd (generateNavOrder env sm)) =
           concat (map (\<lambda>c. country_step env f sm c []) (sm_countries sm))"
  using assms by (simp add: generateNavOrder_def fold_country_step)

lemma country_step_labels:
  "map nav_Country (country_step env f sm c []) =
   replicate (length (country_step env f sm c [])) (Some (co_CountryShort c))"
  by (rule map_const_replicate) (simp add: country_step_country)

lemma generateNavOrder_countries:
  assumes "sm_format sm = Some f"
  shows "map nav_Country (sm_navOrder (snd (generateNavOrder env sm))) =
           concat (map (\<lambda>c. replicate (length (country_step env f sm c []))
                                (Some (co_CountryShort c))) (sm_countries sm))"
  by (simp add: generateNavOrder_concat [OF assms] map_concat comp_def
        country_step_labels)


lemma lex_le_refl: "lex_le x x"
  by (induction x) simp_all

lemma sorted_wrt_replicate: "P v v \<Longrightarrow> sorted_wrt P (replicate n v)"
  by (induction n) simp_all

lemma sorted_wrt_blocks:
  assumes "\<And>x. P x x" and "sorted_wrt P (map g cs)"
  shows "sorted_wrt P (concat (map (\<lambda>c. replicate (n c) (g c)) cs))"
  using assms(2)
proof (induction cs)
  case Nil
  then show ?case by simp
next
  case (Cons c cs)
  then show ?case
    by (auto simp: sorted_wrt_append sorted_wrt_replicate assms(1))
qed

lemma nav_country_codes_blocks:
  assumes "map nav_Country navs = concat (map (\<lambda>c. replicate (n c) (Some (g c))) cs)"
  shows "nav_country_codes navs = concat (map (\<lambda>c. replicate (n c) (g c)) cs)"
proof -
  have "nav_country_codes navs = List.map_filter id (map nav_Country navs)"
    by (simp add: nav_country_codes_def map_filter_def comp_def filter_map)
  also have "\<dots> = concat (map (\<lambda>c. replicate (n c) (g c)) cs)"
    unfolding assms by (induction cs) (simp_all add: map_filter_def)
  finally show ?thesis .
qed

lemma us_ca_manager_facts:
  "sm_format us_ca_manager = Some ''state''"
  "map co_CountryShort (sm_countries us_ca_manager) = [''US'', ''CA'']"
  "map co_CountryShort (GetCountries us_ca_store ''all'') = [''US'', ''CA'']"
  by code_simp+

lemma us_ca_expansion:
  "nav_country_codes (sm_navOrder (snd (generateNavOrder example_env us_ca_manager))) =
     [''US'', ''CA'']"
  by code_simp

lemma zip_manager_facts:
  "sm_format zip_manager = Some ''zip''"
  "map co_CountryShort (sm_countries zip_manager) = [''AU'', ''BE'', ''CH'']"
  by code_simp+

lemma zip_manager_expansion:
  "nav_country_codes (sm_navOrder (snd (generateNavOrder example_env zip_manager))) =
     [''AU'', ''BE'', ''CH'']"
  by code_simp

text \<open>
  C2, as the specification states it, fails: the store returns the countries US, CA
  in the order of their insertion, the expansion lists the step of US before the
  step of CA, and that is not the lexicographic order of the codes.
\<close>

theorem expansion_not_lexicographic:
  "map co_CountryShort (GetCountries us_ca_store ''all'') = [''US'', ''CA''] \<and>
   nav_country_codes (sm_navOrder (snd (generateNavOrder example_env us_ca_manager))) =
     [''US'', ''CA''] \<and>
   \<not> codes_lexicographic
       (nav_country_codes (sm_navOrder (snd (generateNavOrder example_env us_ca_manager))))"
  by (simp add: us_ca_manager_facts us_ca_expansion codes_lexicographic_def)

text \<open>
  C2, amended. With a format set, \<^verbatim>\<open>generateNavOrder\<close> does not fail and visits the
  countries in the order of the manager's loaded list, which no sort changes: the
  sequence is the concatenation, in that order, of the block of steps of each
  country, and every step of a block carries the code of its country. So the
  sequence is a function of the loaded entities, and its country codes ascend
  lexicographically whenever those of the loaded list do.
\<close>

theorem generateNavOrder_follows_loaded_order:
  assumes "sm_format sm = Some f"
  shows "fst (generateNavOrder env sm) = None \<and>
         sm_navOrder (snd (generateNavOrder env sm)) =
           concat (map (\<lambda>c. country_step env f sm c []) (sm_countries sm)) \<and>
         map nav_Country (sm_navOrder (snd (generateNavOrder env sm))) =
           concat (map (\<lambda>c. replicate (length (country_step env f sm c []))
                                (Some (co_CountryShort c))) (sm_countries sm)) \<and>
         (codes_lexicographic (map co_CountryShort (sm_countries sm)) \<longrightarrow>
          codes_lexicographic
            (nav_country_codes (sm_navOrder (snd (generateNavOrder env sm)))))"
proof -
  let ?navs = "sm_navOrder (snd (generateNavOrder env sm))"
  have codes: "nav_country_codes ?navs =
      concat (map (\<lambda>c. replicate (length (country_step env f sm c [])) (co_CountryShort c))
        (sm_countries sm))"
    by (rule nav_country_codes_blocks) (rule generateNavOrder_countries [OF assms])
  have "codes_lexicographic (nav_country_codes ?navs)"
    if "codes_lexicographic (map co_CountryShort (sm_countries sm))"
    unfolding codes codes_lexicographic_def
    using that by (intro sorted_wrt_blocks) (simp_all add: lex_le_refl codes_lexicographic_def)
  moreover have "fst (generateNavOrder env sm) = None"
    using assms by (simp add: generateNavOrder_def)
  ultimately show ?thesis
    using generateNavOrder_concat [OF assms] generateNavOrder_countries [OF assms]
    by blast
qed

theorem generateNavOrder_follows_loaded_order_witness:
  "sm_format zip_manager = Some ''zip'' \<and>
   codes_lexicographic (map co_CountryShort (sm_countries zip_manager)) \<and>
   fst (generateNavOrder example_env zip_manager) = None \<and>
   nav_country_codes (sm_navOrder (snd (generateNavOrder example_env zip_manager))) =
     [''AU'', ''BE'', ''CH''] \<and>
   codes_lexicographic
     (nav_country_codes (sm_navOrder (snd (generateNavOrder example_env zip_manager))))"
proof -
  have f: "sm_format zip_manager = Some ''zip''"
    by (rule zip_manager_facts)
  have sorted: "codes_lexicographic (map co_CountryShort (sm_countries zip_manager))"
    by (simp add: zip_manager_facts codes_lexicographic_def)
  note order = generateNavOrder_follows_loaded_order [OF f, of example_env]
  from order have ok: "fst (generateNavOrder example_env zip_manager) = None"
    by (rule conjunct1)
  from order have "codes_lexicographic (map co_CountryShort (sm_countries zip_manager)) \<longrightarrow>
      codes_lexicographic
        (nav_country_codes (sm_navOrder (snd (generateNavOrder example_env zip_manager))))"
    by (elim conjE)
  with sorted have "codes_lexicographic
      (nav_country_codes (sm_navOrder (snd (generateNavOrder example_env zip_manager))))"
    by (rule rev_mp)
  with ok f sorted show ?thesis
    by (simp add: zip_manager_expansion)
qed

end
